theory Spec2Isabelle
  imports Main "HOL-Library.Char_ord" "HOL-Library.List_Lexorder"
begin

section \<open>Failure outcomes\<close>

text \<open>
  A Go function of the pool model either returns a value, returns an \<open>error\<close>, or
  panics inside the cosmos-sdk (a division by zero of \<open>big.Int\<close>, a coin built with an
  invalid denomination or a negative amount) or inside \<open>osmomath.Pow\<close>. All three outcomes are values of the
  model: a result is \<open>error + 'a\<close>, and a panic is one of the \<open>Panic\<close> errors.
\<close>

datatype panic = DivisionByZero | InvalidDenom | NegativeCoinAmount | PowPanic | CalculatorPanic

datatype error =
    ErrSameDenom            \<comment> \<open>"cannot trade same denomination in and out"\<close>
  | ErrPoolNotFound
  | ErrDenomNotInPool
  | ErrExpectedOneCoin
  | ErrPoolLocked           \<comment> \<open>types.ErrPoolLocked\<close>
  | ErrInvalidMathApprox    \<comment> \<open>types.ErrInvalidMathApprox\<close>
  | ErrLimitMinAmount       \<comment> \<open>types.ErrLimitMinAmount\<close>
  | ErrLimitMaxAmount       \<comment> \<open>types.ErrLimitMaxAmount\<close>
  | ErrTooManyTokensOut     \<comment> \<open>types.ErrTooManyTokensOut\<close>
  | ErrTooManySharesOut     \<comment> \<open>"too many shares out"\<close>
  | ErrJoinShape            \<comment> \<open>"balancer pool only supports LP'ing with one asset, or all assets in pool"\<close>
  | ErrTodoImplement        \<comment> \<open>"TODO: Implement"\<close>
  | ErrSetPool              \<comment> \<open>an error returned by \<open>SetPool\<close>\<close>
  | ErrInvalidCoins         \<comment> \<open>the bank's refusal of coins that are not valid\<close>
  | ErrInsufficientFunds    \<comment> \<open>the bank's refusal of a transfer\<close>
  | Panic panic

definition bindE :: "error + 'a \<Rightarrow> ('a \<Rightarrow> error + 'b) \<Rightarrow> error + 'b" where
  "bindE r f = (case r of Inl e \<Rightarrow> Inl e | Inr v \<Rightarrow> f v)"

section \<open>The numbers of the cosmos-sdk\<close>

text \<open>
  \<open>sdk.Int\<close> is a big integer, modelled as \<open>int\<close>. \<open>sdk.Dec\<close> is a fixed-point decimal
  with 18 fractional digits, held as the big integer \<open>amount * 10^18\<close>; \<open>units\<close> reads that
  integer. The operations below are the ones \<open>amm.go\<close> and \<open>swap.go\<close> call, with the
  rounding of \<open>types/decimal.go\<close>: \<open>Mul\<close> and \<open>Quo\<close> round half to even on the 18th
  digit, \<open>QuoInt\<close> and \<open>TruncateInt\<close> truncate toward zero, \<open>MulInt\<close> is exact, and a
  division by zero panics. The sdk also panics when a result exceeds its bound on
  the bit length of an \<open>Int\<close> or a \<open>Dec\<close>; numbers here are unbounded, so the theorems
  speak of runs below that bound.
\<close>

datatype Dec = Dec (units: int)

definition precisionReuse :: int where
  "precisionReuse = 10 ^ 18"

definition fivePrecision :: int where
  "fivePrecision = 5 * 10 ^ 17"

text \<open>\<open>big.Int.Quo\<close>: the quotient truncated toward zero (the divisor is not zero).\<close>

definition bigQuo :: "int \<Rightarrow> int \<Rightarrow> int" where
  "bigQuo a b = sgn a * sgn b * (\<bar>a\<bar> div \<bar>b\<bar>)"

text \<open>\<open>chopPrecisionAndRound\<close>: drop 18 digits, rounding half to even; a negative number
  is negated, rounded and negated back.\<close>

definition chopRoundPos :: "int \<Rightarrow> int" where
  "chopRoundPos d =
     (let quo = d div precisionReuse; rem = d mod precisionReuse in
      if rem = 0 then quo
      else if rem < fivePrecision then quo
      else if fivePrecision < rem then quo + 1
      else if even quo then quo else quo + 1)"

definition chopPrecisionAndRound :: "int \<Rightarrow> int" where
  "chopPrecisionAndRound d = (if d < 0 then - chopRoundPos (- d) else chopRoundPos d)"

definition chopPrecisionAndTruncate :: "int \<Rightarrow> int" where
  "chopPrecisionAndTruncate d = bigQuo d precisionReuse"

definition OneDec :: Dec where
  "OneDec = Dec precisionReuse"

definition ToDec :: "int \<Rightarrow> Dec" where
  "ToDec i = Dec (i * precisionReuse)"

definition DecAdd :: "Dec \<Rightarrow> Dec \<Rightarrow> Dec" where
  "DecAdd a b = Dec (units a + units b)"

definition DecSub :: "Dec \<Rightarrow> Dec \<Rightarrow> Dec" where
  "DecSub a b = Dec (units a - units b)"

definition DecNeg :: "Dec \<Rightarrow> Dec" where
  "DecNeg a = Dec (- units a)"

definition DecMul :: "Dec \<Rightarrow> Dec \<Rightarrow> Dec" where
  "DecMul a b = Dec (chopPrecisionAndRound (units a * units b))"

definition DecMulInt :: "Dec \<Rightarrow> int \<Rightarrow> Dec" where
  "DecMulInt a i = Dec (units a * i)"

text \<open>\<open>Quo\<close> multiplies by the precision twice, divides as \<open>big.Int.Quo\<close> does and
  rounds the last 18 digits away; \<open>quoDec\<close> is that quotient for a divisor that is not
  zero.\<close>

definition quoDec :: "Dec \<Rightarrow> Dec \<Rightarrow> Dec" where
  "quoDec a b =
     Dec (chopPrecisionAndRound (bigQuo (units a * precisionReuse * precisionReuse) (units b)))"

definition DecQuo :: "Dec \<Rightarrow> Dec \<Rightarrow> error + Dec" where
  "DecQuo a b = (if units b = 0 then Inl (Panic DivisionByZero) else Inr (quoDec a b))"

definition DecQuoInt :: "Dec \<Rightarrow> int \<Rightarrow> error + Dec" where
  "DecQuoInt a i =
     (if i = 0 then Inl (Panic DivisionByZero) else Inr (Dec (bigQuo (units a) i)))"

definition TruncateInt :: "Dec \<Rightarrow> int" where
  "TruncateInt a = chopPrecisionAndTruncate (units a)"

definition DecIsZero :: "Dec \<Rightarrow> bool" where
  "DecIsZero a = (units a = 0)"

definition DecIsNegative :: "Dec \<Rightarrow> bool" where
  "DecIsNegative a = (units a < 0)"

section \<open>Coins and the pool\<close>

record Coin =
  Denom :: string
  Amount :: int

datatype DecCoin = DecCoin string Dec

text \<open>\<open>sdk.ValidateDenom\<close>: a denomination matches \<open>[a-zA-Z][a-zA-Z0-9/:._-]{2,127}\<close>,
  a letter followed by 2 to 127 letters, digits or characters of \<open>/:._-\<close>.\<close>

definition isLetter :: "char \<Rightarrow> bool" where
  "isLetter c = ((CHR ''a'' \<le> c \<and> c \<le> CHR ''z'') \<or> (CHR ''A'' \<le> c \<and> c \<le> CHR ''Z''))"

definition isDenomChar :: "char \<Rightarrow> bool" where
  "isDenomChar c =
     (isLetter c \<or> (CHR ''0'' \<le> c \<and> c \<le> CHR ''9'') \<or>
      c = CHR ''/'' \<or> c = CHR '':'' \<or> c = CHR ''.'' \<or> c = CHR ''_'' \<or> c = CHR ''-'')"

definition ValidateDenom :: "string \<Rightarrow> bool" where
  "ValidateDenom denom =
     (case denom of
        [] \<Rightarrow> False
      | c # cs \<Rightarrow> isLetter c \<and> 2 \<le> length cs \<and> length cs \<le> 127 \<and> list_all isDenomChar cs)"

text \<open>\<open>sdk.NewCoin\<close> and \<open>sdk.NewDecCoinFromDec\<close> validate the coin they build: they panic
  on an invalid denomination and then on a negative amount.\<close>

definition NewCoin :: "string \<Rightarrow> int \<Rightarrow> error + Coin" where
  "NewCoin denom amount =
     (if \<not> ValidateDenom denom then Inl (Panic InvalidDenom)
      else if amount < 0 then Inl (Panic NegativeCoinAmount)
      else Inr \<lparr>Denom = denom, Amount = amount\<rparr>)"

definition NewDecCoinFromDec :: "string \<Rightarrow> Dec \<Rightarrow> error + DecCoin" where
  "NewDecCoinFromDec denom amount =
     (if \<not> ValidateDenom denom then Inl (Panic InvalidDenom)
      else if DecIsNegative amount then Inl (Panic NegativeCoinAmount)
      else Inr (DecCoin denom amount))"

text \<open>\<open>Coins.Add\<close> of one coin to a list of coins that is sorted by denomination, as the
  merge of \<open>safeAdd\<close> does it: the coin goes to its place in the order of the
  denominations (\<open>strings.Compare\<close>, the order of the bytes); a coin of the same
  denomination is added to, and dropped when the sum is zero.\<close>

fun CoinsAdd :: "Coin list \<Rightarrow> Coin \<Rightarrow> Coin list" where
  "CoinsAdd [] c = [c]"
| "CoinsAdd (a # as) c =
     (if Denom a < Denom c then a # CoinsAdd as c
      else if Denom a = Denom c
        then (if Amount a + Amount c = 0 then as
              else \<lparr>Denom = Denom a, Amount = Amount a + Amount c\<rparr> # as)
      else c # a # as)"

record PoolAsset =
  Token :: Coin
  Weight :: int

text \<open>The fields of the balancer \<open>Pool\<close> that the functions below read or write. The
  active window is the spec's \<open>activeWindow\<close>: an optional \<open>[start, end)\<close> bound.\<close>

record Pool =
  Id :: nat
  Address :: string
  SwapFee :: Dec
  activeWindow :: "(nat \<times> nat) option"
  TotalShares :: Coin
  PoolAssets :: "PoolAsset list"

text \<open>Modelled from the spec: the accessors of \<open>pool.go\<close> (\<open>GetTotalShares\<close>,
  \<open>GetTotalWeight\<close>, \<open>NumAssets\<close>, \<open>GetTotalLpBalances\<close>, \<open>GetPoolSwapFee\<close>,
  \<open>IsActive\<close>) are not among the sources. The spec gives the pool's total shares, its
  assets with a balance and a weight each, the total weight as the sum of all weights, a
  swap fee and an optional active window.\<close>

definition GetTotalShares :: "Pool \<Rightarrow> int" where
  "GetTotalShares p = Amount (TotalShares p)"

definition GetTotalWeight :: "Pool \<Rightarrow> int" where
  "GetTotalWeight p = sum_list (map Weight (PoolAssets p))"

definition NumAssets :: "Pool \<Rightarrow> nat" where
  "NumAssets p = length (PoolAssets p)"

definition GetTotalLpBalances :: "Pool \<Rightarrow> Coin list" where
  "GetTotalLpBalances p = map Token (PoolAssets p)"

definition GetPoolSwapFee :: "Pool \<Rightarrow> Dec" where
  "GetPoolSwapFee p = SwapFee p"

definition IsActive :: "Pool \<Rightarrow> nat \<Rightarrow> bool" where
  "IsActive p now =
     (case activeWindow p of None \<Rightarrow> True | Some (start, stop) \<Rightarrow> start \<le> now \<and> now < stop)"

text \<open>Modelled from the spec: the lookups of \<open>pool.go\<close> (\<open>GetPoolAsset\<close>,
  \<open>parsePoolAssetsByDenoms\<close>, \<open>parsePoolAssets\<close>) are not among the sources. The spec
  gives one failure for them, a denomination that is not an asset of the pool; the
  operations of the spec take a single token, so a coin list of any other length is
  refused.\<close>

fun getPoolAssetByDenom :: "PoolAsset list \<Rightarrow> string \<Rightarrow> PoolAsset option" where
  "getPoolAssetByDenom [] denom = None"
| "getPoolAssetByDenom (a # as) denom =
     (if Denom (Token a) = denom then Some a else getPoolAssetByDenom as denom)"

definition GetPoolAsset :: "Pool \<Rightarrow> string \<Rightarrow> error + PoolAsset" where
  "GetPoolAsset p denom =
     (case getPoolAssetByDenom (PoolAssets p) denom of
        None \<Rightarrow> Inl ErrDenomNotInPool | Some a \<Rightarrow> Inr a)"

definition parsePoolAssetsByDenoms ::
  "Pool \<Rightarrow> string \<Rightarrow> string \<Rightarrow> error + (PoolAsset \<times> PoolAsset)" where
  "parsePoolAssetsByDenoms p tokenADenom tokenBDenom =
     (case (getPoolAssetByDenom (PoolAssets p) tokenADenom,
            getPoolAssetByDenom (PoolAssets p) tokenBDenom) of
        (Some Aasset, Some Basset) \<Rightarrow> Inr (Aasset, Basset)
      | _ \<Rightarrow> Inl ErrDenomNotInPool)"

definition parsePoolAssets ::
  "Pool \<Rightarrow> Coin list \<Rightarrow> string \<Rightarrow> error + (Coin \<times> PoolAsset \<times> PoolAsset)" where
  "parsePoolAssets p tokensA tokenBDenom =
     (case tokensA of
        [tokenA] \<Rightarrow>
          bindE (parsePoolAssetsByDenoms p (Denom tokenA) tokenBDenom)
            (\<lambda>(Aasset, Basset). Inr (tokenA, Aasset, Basset))
      | _ \<Rightarrow> Inl ErrExpectedOneCoin)"

text \<open>Modelled from the spec: the balance writers of \<open>pool.go\<close>
  (\<open>UpdatePoolAssetBalance\<close>, \<open>AddPoolAssetBalance\<close>, \<open>SubPoolAssetBalance\<close>) are not
  among the sources. The spec has the balance of the named asset replaced, increased or
  reduced by the coin's amount, and an unknown denomination as the only failure.\<close>

fun setBalance :: "PoolAsset list \<Rightarrow> string \<Rightarrow> int \<Rightarrow> PoolAsset list" where
  "setBalance [] denom amt = []"
| "setBalance (a # as) denom amt =
     (if Denom (Token a) = denom
      then a\<lparr>Token := \<lparr>Denom = denom, Amount = amt\<rparr>\<rparr> # as
      else a # setBalance as denom amt)"

definition UpdatePoolAssetBalance :: "Pool \<Rightarrow> Coin \<Rightarrow> Pool" where
  "UpdatePoolAssetBalance p coin =
     p\<lparr>PoolAssets := setBalance (PoolAssets p) (Denom coin) (Amount coin)\<rparr>"

definition AddPoolAssetBalance :: "Pool \<Rightarrow> Coin \<Rightarrow> error + Pool" where
  "AddPoolAssetBalance p coin =
     bindE (GetPoolAsset p (Denom coin)) (\<lambda>a.
       Inr (p\<lparr>PoolAssets :=
              setBalance (PoolAssets p) (Denom coin) (Amount (Token a) + Amount coin)\<rparr>))"

definition SubPoolAssetBalance :: "Pool \<Rightarrow> Coin \<Rightarrow> error + Pool" where
  "SubPoolAssetBalance p coin =
     bindE (GetPoolAsset p (Denom coin)) (\<lambda>a.
       Inr (p\<lparr>PoolAssets :=
              setBalance (PoolAssets p) (Denom coin) (Amount (Token a) - Amount coin)\<rparr>))"

section \<open>The pool model: amm.go\<close>

text \<open>\<open>osmomath.Pow\<close> is not among the sources. Every function that reaches it takes
  the power function as its first argument \<open>pow\<close>. \<open>Pow\<close> returns a \<open>Dec\<close> and no error,
  so it can only return or panic: \<open>None\<close> is the panic. The theorems hold for every such
  function.\<close>

type_synonym power = "Dec \<Rightarrow> Dec \<Rightarrow> Dec option"

definition callPow :: "power \<Rightarrow> Dec \<Rightarrow> Dec \<Rightarrow> error + Dec" where
  "callPow pow base e = (case pow base e of None \<Rightarrow> Inl (Panic PowPanic) | Some v \<Rightarrow> Inr v)"

definition solveConstantFunctionInvariant ::
  "power \<Rightarrow> Dec \<Rightarrow> Dec \<Rightarrow> Dec \<Rightarrow> Dec \<Rightarrow> Dec \<Rightarrow> error + Dec" where
  "solveConstantFunctionInvariant pow tokenBalanceFixedBefore tokenBalanceFixedAfter
       tokenWeightFixed tokenBalanceUnknownBefore tokenWeightUnknown =
     bindE (DecQuo tokenWeightFixed tokenWeightUnknown) (\<lambda>weightRatio.
     bindE (DecQuo tokenBalanceFixedBefore tokenBalanceFixedAfter) (\<lambda>y.
     bindE (callPow pow y weightRatio) (\<lambda>foo.
       Inr (DecMul tokenBalanceUnknownBefore (DecSub OneDec foo)))))"


definition CalcInAmtGivenOut ::
  "power \<Rightarrow> Pool \<Rightarrow> Coin list \<Rightarrow> string \<Rightarrow> Dec \<Rightarrow> error + DecCoin" where
  "CalcInAmtGivenOut pow p tokensOut tokenInDenom swapFee =
     bindE (parsePoolAssets p tokensOut tokenInDenom) (\<lambda>(tokenOut, poolAssetOut, poolAssetIn).
       let poolTokenOutBalance = ToDec (Amount (Token poolAssetOut));
           poolPreSwapOutBalance = DecSub poolTokenOutBalance (ToDec (Amount tokenOut))
       in bindE (solveConstantFunctionInvariant pow
                   poolTokenOutBalance poolPreSwapOutBalance (ToDec (Weight poolAssetOut))
                   (ToDec (Amount (Token poolAssetIn))) (ToDec (Weight poolAssetIn)))
            (\<lambda>tokenAmountIn.
               bindE (DecQuo tokenAmountIn (DecSub OneDec swapFee)) (\<lambda>tokenAmountInBeforeFee.
                 NewDecCoinFromDec tokenInDenom tokenAmountInBeforeFee)))"

definition SpotPrice :: "Pool \<Rightarrow> string \<Rightarrow> string \<Rightarrow> error + Dec" where
  "SpotPrice p quoteAsset baseAsset =
     bindE (parsePoolAssetsByDenoms p quoteAsset baseAsset) (\<lambda>(quote, base).
     bindE (DecQuoInt (ToDec (Amount (Token base))) (Weight base)) (\<lambda>numerator.
     bindE (DecQuoInt (ToDec (Amount (Token quote))) (Weight quote)) (\<lambda>denom.
       DecQuo numerator denom)))"

definition calcPoolOutGivenSingleIn ::
  "power \<Rightarrow> Dec \<Rightarrow> Dec \<Rightarrow> Dec \<Rightarrow> Dec \<Rightarrow> Dec \<Rightarrow> error + Dec" where
  "calcPoolOutGivenSingleIn pow tokenBalanceIn normalizedTokenWeightIn poolShares
       tokenAmountIn swapFee =
     (let effectiveSwapFee = DecMul (DecSub OneDec normalizedTokenWeightIn) swapFee;
          tokenAmountInAfterFee = DecMul tokenAmountIn (DecSub OneDec effectiveSwapFee)
      in bindE (solveConstantFunctionInvariant pow
                  (DecAdd tokenBalanceIn tokenAmountInAfterFee) tokenBalanceIn
                  normalizedTokenWeightIn poolShares OneDec)
           (\<lambda>d. Inr (DecNeg d)))"

text \<open>The methods with a pointer receiver return the pool next to their result: the
  pool as the call leaves it, also when the call fails.\<close>

definition singleAssetJoin :: "power \<Rightarrow> Pool \<Rightarrow> Coin \<Rightarrow> Dec \<Rightarrow> (error + int) \<times> Pool" where
  "singleAssetJoin pow p tokenIn swapFee =
     (case GetPoolAsset p (Denom tokenIn) of
        Inl e \<Rightarrow> (Inl e, p)
      | Inr tokenInPoolAsset \<Rightarrow>
          (bindE (DecQuo (ToDec (Weight tokenInPoolAsset)) (ToDec (GetTotalWeight p)))
             (\<lambda>normalizedWeight.
                bindE (calcPoolOutGivenSingleIn pow
                         (ToDec (Amount (Token tokenInPoolAsset))) normalizedWeight
                         (ToDec (GetTotalShares p)) (ToDec (Amount tokenIn)) swapFee)
                  (\<lambda>d. Inr (TruncateInt d))),
           p))"

definition JoinPool :: "power \<Rightarrow> Pool \<Rightarrow> Coin list \<Rightarrow> Dec \<Rightarrow> (error + int) \<times> Pool" where
  "JoinPool pow p tokensIn swapFee =
     (case tokensIn of
        [tokenIn] \<Rightarrow> singleAssetJoin pow p tokenIn swapFee
      | _ \<Rightarrow>
          if length tokensIn \<noteq> NumAssets p then (Inl ErrJoinShape, p)
          else (Inl ErrTodoImplement, p))"

text \<open>The loop of \<open>ExitPool\<close> over the balances read before it: \<open>exitedCoins\<close> grows and
  the pool is written asset by asset.\<close>

fun exitLoop :: "Dec \<Rightarrow> Coin list \<Rightarrow> Coin list \<Rightarrow> Pool \<Rightarrow> (error + Coin list) \<times> Pool" where
  "exitLoop shareOutRatio [] exitedCoins p = (Inr exitedCoins, p)"
| "exitLoop shareOutRatio (asset # balances) exitedCoins p =
     (let exitAmt = TruncateInt (DecMulInt shareOutRatio (Amount asset)) in
      if exitAmt \<le> 0 then exitLoop shareOutRatio balances exitedCoins p
      else
        (case NewCoin (Denom asset) exitAmt of
           Inl e \<Rightarrow> (Inl e, p)
         | Inr exited \<Rightarrow>
             (case NewCoin (Denom asset) (Amount asset - exitAmt) of
                Inl e \<Rightarrow> (Inl e, p)
              | Inr remaining \<Rightarrow>
                  exitLoop shareOutRatio balances (CoinsAdd exitedCoins exited)
                    (UpdatePoolAssetBalance p remaining))))"

definition ExitPool :: "Pool \<Rightarrow> int \<Rightarrow> Dec \<Rightarrow> (error + Coin list) \<times> Pool" where
  "ExitPool p exitingShares exitFee =
     (let totalShares = GetTotalShares p in
      if totalShares \<le> exitingShares then (Inl ErrTooManySharesOut, p)
      else
        let refundedShares =
              (if \<not> DecIsZero exitFee
               then TruncateInt (DecMulInt (DecSub OneDec exitFee) exitingShares)
               else exitingShares)
        in case DecQuoInt (ToDec totalShares) refundedShares of
             Inl e \<Rightarrow> (Inl e, p)
           | Inr shareOutRatio \<Rightarrow>
               (case exitLoop shareOutRatio (GetTotalLpBalances p) [] p of
                  (Inl e, p') \<Rightarrow> (Inl e, p')
                | (Inr exitedCoins, p') \<Rightarrow>
                    (case NewCoin (Denom (TotalShares p')) (totalShares - exitingShares) of
                       Inl e \<Rightarrow> (Inl e, p')
                     | Inr shares \<Rightarrow> (Inr exitedCoins, p'\<lparr>TotalShares := shares\<rparr>))))"

section \<open>The keeper: swap.go\<close>

text \<open>The state the keeper works on: the stored pools and the balances of the bank, by
  account and denomination.\<close>

type_synonym ledger = "string \<times> string \<Rightarrow> int"

record Keeper =
  pools :: "nat \<Rightarrow> Pool option"
  bank :: ledger

text \<open>Modelled from the spec: \<open>getPoolAndInOutAssets\<close> of the keeper is not among the
  sources. The spec gives a pool repository with \<open>load\<close> and the failure of an unknown
  denomination.\<close>

definition getPoolAndInOutAssets ::
  "Keeper \<Rightarrow> nat \<Rightarrow> string \<Rightarrow> string \<Rightarrow> error + (Pool \<times> PoolAsset \<times> PoolAsset)" where
  "getPoolAndInOutAssets k poolId tokenInDenom tokenOutDenom =
     (case pools k poolId of
        None \<Rightarrow> Inl ErrPoolNotFound
      | Some pool \<Rightarrow>
          bindE (parsePoolAssetsByDenoms pool tokenInDenom tokenOutDenom)
            (\<lambda>(inAsset, outAsset). Inr (pool, inAsset, outAsset)))"

text \<open>\<open>SendCoins\<close> of the sdk's bank, the spec's ledger: it refuses coins that are not
  valid (an invalid denomination, an amount that is not positive) with
  \<open>ErrInvalidCoins\<close> and a transfer the sender's funds do not cover with
  \<open>ErrInsufficientFunds\<close>; otherwise the coins move. (It is called with a single coin;
  the order of the denominations in a longer list is not checked here, and every coin
  of an account can be spent: the locked coins of a vesting account are left out.)\<close>

fun moveCoins :: "ledger \<Rightarrow> string \<Rightarrow> string \<Rightarrow> Coin list \<Rightarrow> error + ledger" where
  "moveCoins b fromAddr toAddr [] = Inr b"
| "moveCoins b fromAddr toAddr (c # cs) =
     (if b (fromAddr, Denom c) < Amount c then Inl ErrInsufficientFunds
      else
        let b1 = b((fromAddr, Denom c) := b (fromAddr, Denom c) - Amount c);
            b2 = b1((toAddr, Denom c) := b1 (toAddr, Denom c) + Amount c)
        in moveCoins b2 fromAddr toAddr cs)"

definition SendCoins :: "ledger \<Rightarrow> string \<Rightarrow> string \<Rightarrow> Coin list \<Rightarrow> error + ledger" where
  "SendCoins b fromAddr toAddr amt =
     (if \<not> list_all (\<lambda>c. ValidateDenom (Denom c) \<and> 0 < Amount c) amt then Inl ErrInvalidCoins
      else moveCoins b fromAddr toAddr amt)"

text \<open>\<open>types.CalcOutGivenIn\<close> and \<open>types.CalcInGivenOut\<close>, the curve \<open>pool.Swap()\<close> and
  \<open>PoolAsset.Normalize\<close> are not among the sources. The two swaps take their calculator
  as the first argument: a function of the pool, the two assets found in it, the amount
  and the swap fee. It returns a \<open>Dec\<close> and no error, so it can only return or panic:
  \<open>None\<close> is the panic. The theorems hold for every such function.\<close>

type_synonym calculator = "Pool \<Rightarrow> PoolAsset \<Rightarrow> PoolAsset \<Rightarrow> int \<Rightarrow> Dec \<Rightarrow> Dec option"

text \<open>\<open>Keeper.SetPool\<close> is not among the sources. It returns an error or writes the
  pool, so the functions that call it take it as an argument: a function of the state
  and the pool that gives the state with the pool written, or \<open>None\<close> for its error. The
  theorems hold for every such function.\<close>

type_synonym store = "Keeper \<Rightarrow> Pool \<Rightarrow> Keeper option"

text \<open>Modelled from the spec: the spec's \<open>store\<close> writes the pool under its id and has no
  failure.\<close>

definition storePool :: store where
  "storePool k pool = Some (k\<lparr>pools := (pools k)(Id pool \<mapsto> pool)\<rparr>)"

text \<open>\<open>updatePoolForSwap\<close>: the two balance updates of the pool, the write of the pool, and
  the two transfers, each returning its error. The event, the hook and the liquidity
  records that follow the transfers return nothing and touch neither the pools nor the
  bank.\<close>

definition updatePoolForSwap ::
  "store \<Rightarrow> Keeper \<Rightarrow> Pool \<Rightarrow> string \<Rightarrow> Coin \<Rightarrow> Coin \<Rightarrow> (error + unit) \<times> Keeper" where
  "updatePoolForSwap SetPool k pool sender tokenIn tokenOut =
     (case AddPoolAssetBalance pool tokenIn of
        Inl e \<Rightarrow> (Inl e, k)
      | Inr pool1 \<Rightarrow>
     (case SubPoolAssetBalance pool1 tokenOut of
        Inl e \<Rightarrow> (Inl e, k)
      | Inr pool2 \<Rightarrow>
     (case SetPool k pool2 of
        None \<Rightarrow> (Inl ErrSetPool, k)
      | Some k1 \<Rightarrow>
     (case SendCoins (bank k1) sender (Address pool2) [tokenIn] of
        Inl e \<Rightarrow> (Inl e, k1)
      | Inr b1 \<Rightarrow>
     (case SendCoins b1 (Address pool2) sender [tokenOut] of
        Inl e \<Rightarrow> (Inl e, k1\<lparr>bank := b1\<rparr>)
      | Inr b2 \<Rightarrow> (Inr (), k1\<lparr>bank := b2\<rparr>))))))"

text \<open>The two swaps. \<open>now\<close> is the block time of the context. The assignments to the
  local copies \<open>inPoolAsset\<close> and \<open>outPoolAsset\<close> (lines 53-54 and 110-111) change
  nothing that is read afterwards: the pool is updated by \<open>updatePoolForSwap\<close>.\<close>

definition SwapExactAmountIn ::
  "calculator \<Rightarrow> store \<Rightarrow> Keeper \<Rightarrow> nat \<Rightarrow> string \<Rightarrow> nat \<Rightarrow> Coin \<Rightarrow> string \<Rightarrow> int
     \<Rightarrow> (error + int) \<times> Keeper" where
  "SwapExactAmountIn CalcOutGivenIn SetPool k now sender poolId tokenIn tokenOutDenom
       tokenOutMinAmount =
     (if Denom tokenIn = tokenOutDenom then (Inl ErrSameDenom, k)
      else
        case getPoolAndInOutAssets k poolId (Denom tokenIn) tokenOutDenom of
          Inl e \<Rightarrow> (Inl e, k)
        | Inr (pool, inPoolAsset, outPoolAsset) \<Rightarrow>
            if \<not> IsActive pool now then (Inl ErrPoolLocked, k)
            else
              (case CalcOutGivenIn pool inPoolAsset outPoolAsset (Amount tokenIn)
                      (GetPoolSwapFee pool) of
                 None \<Rightarrow> (Inl (Panic CalculatorPanic), k)
               | Some d \<Rightarrow>
                   let tokenOutAmount = TruncateInt d in
                   if tokenOutAmount \<le> 0 then (Inl ErrInvalidMathApprox, k)
                   else if tokenOutAmount < tokenOutMinAmount then (Inl ErrLimitMinAmount, k)
                   else
                     let tokenOut = \<lparr>Denom = tokenOutDenom, Amount = tokenOutAmount\<rparr> in
                     (case updatePoolForSwap SetPool k pool sender tokenIn tokenOut of
                        (Inl e, k') \<Rightarrow> (Inl e, k')
                      | (Inr u, k') \<Rightarrow> (Inr tokenOutAmount, k'))))"

definition SwapExactAmountOut ::
  "calculator \<Rightarrow> store \<Rightarrow> Keeper \<Rightarrow> nat \<Rightarrow> string \<Rightarrow> nat \<Rightarrow> string \<Rightarrow> int \<Rightarrow> Coin
     \<Rightarrow> (error + int) \<times> Keeper" where
  "SwapExactAmountOut CalcInGivenOut SetPool k now sender poolId tokenInDenom tokenInMaxAmount
       tokenOut =
     (if tokenInDenom = Denom tokenOut then (Inl ErrSameDenom, k)
      else
        case getPoolAndInOutAssets k poolId tokenInDenom (Denom tokenOut) of
          Inl e \<Rightarrow> (Inl e, k)
        | Inr (pool, inPoolAsset, outPoolAsset) \<Rightarrow>
            if \<not> IsActive pool now then (Inl ErrPoolLocked, k)
            else
              let poolOutBal = Amount (Token outPoolAsset) in
              if poolOutBal \<le> Amount tokenOut then (Inl ErrTooManyTokensOut, k)
              else
                (case CalcInGivenOut pool inPoolAsset outPoolAsset (Amount tokenOut)
                        (GetPoolSwapFee pool) of
                   None \<Rightarrow> (Inl (Panic CalculatorPanic), k)
                 | Some d \<Rightarrow>
                     let tokenInAmount = TruncateInt d in
                     if tokenInAmount \<le> 0 then (Inl ErrInvalidMathApprox, k)
                     else if tokenInMaxAmount < tokenInAmount then (Inl ErrLimitMaxAmount, k)
                     else
                       let tokenIn = \<lparr>Denom = tokenInDenom, Amount = tokenInAmount\<rparr> in
                       (case updatePoolForSwap SetPool k pool sender tokenIn tokenOut of
                          (Inl e, k') \<Rightarrow> (Inl e, k')
                        | (Inr u, k') \<Rightarrow> (Inr tokenInAmount, k'))))"

text \<open>Modelled from the spec: the enclosing atomic transaction of the host is not among
  the sources. The spec has the staged state and the token movement written as a single
  unit: an operation that returns an error leaves nothing of what it wrote, and one
  that succeeds leaves all of it.\<close>

definition atomically ::
  "(Keeper \<Rightarrow> (error + 'a) \<times> Keeper) \<Rightarrow> Keeper \<Rightarrow> (error + 'a) \<times> Keeper" where
  "atomically operation k =
     (case operation k of
        (Inl e, k') \<Rightarrow> (Inl e, k)
      | (Inr v, k') \<Rightarrow> (Inr v, k'))"

section \<open>The formulas of the specification\<close>

text \<open>These definitions follow the words of the specification, in the arithmetic of
  \<open>sdk.Dec\<close>; the theorems compare them with the functions of the source.\<close>

text \<open>\<open>tokenOutAmount = balanceOut * (1 - (balanceIn / (balanceIn + tokenInAmount *
  (1 - swapFee))) ^ (weightIn / weightOut))\<close>.\<close>

definition calcOutGivenIn_formula ::
  "power \<Rightarrow> int \<Rightarrow> int \<Rightarrow> int \<Rightarrow> int \<Rightarrow> int \<Rightarrow> Dec \<Rightarrow> error + Dec" where
  "calcOutGivenIn_formula pow balanceIn weightIn balanceOut weightOut tokenInAmount swapFee =
     bindE (DecQuo (ToDec weightIn) (ToDec weightOut)) (\<lambda>exponent.
     bindE (DecQuo (ToDec balanceIn)
              (DecAdd (ToDec balanceIn) (DecMul (ToDec tokenInAmount) (DecSub OneDec swapFee))))
       (\<lambda>base.
         case pow base exponent of
           None \<Rightarrow> Inl (Panic PowPanic)
         | Some foo \<Rightarrow> Inr (DecMul (ToDec balanceOut) (DecSub OneDec foo))))"

text \<open>\<open>tokenInAmount = solveInvariant(balanceOut, balanceOut - tokenOutAmount, weightOut,
  balanceIn, weightIn) / (1 - swapFee)\<close>.\<close>

definition calcInGivenOut_formula ::
  "power \<Rightarrow> int \<Rightarrow> int \<Rightarrow> int \<Rightarrow> int \<Rightarrow> int \<Rightarrow> Dec \<Rightarrow> error + Dec" where
  "calcInGivenOut_formula pow balanceOut weightOut balanceIn weightIn tokenOutAmount swapFee =
     bindE (solveConstantFunctionInvariant pow
              (ToDec balanceOut) (DecSub (ToDec balanceOut) (ToDec tokenOutAmount))
              (ToDec weightOut) (ToDec balanceIn) (ToDec weightIn))
       (\<lambda>delta. DecQuo delta (DecSub OneDec swapFee))"

text \<open>\<open>sharesOut = -solveInvariant(balance + tokenIn * (1 - swapFee * (1 -
  normalizedWeightIn)), balance, normalizedWeightIn, totalShares, 1)\<close>, truncated toward
  zero, with \<open>normalizedWeightIn = weight / totalWeight\<close>.\<close>

definition singleAssetJoin_formula ::
  "power \<Rightarrow> int \<Rightarrow> int \<Rightarrow> int \<Rightarrow> int \<Rightarrow> int \<Rightarrow> Dec \<Rightarrow> error + int" where
  "singleAssetJoin_formula pow balance weight totalWeight totalShares tokenInAmount swapFee =
     bindE (DecQuo (ToDec weight) (ToDec totalWeight)) (\<lambda>normalizedWeightIn.
     bindE (solveConstantFunctionInvariant pow
              (DecAdd (ToDec balance)
                 (DecMul (ToDec tokenInAmount)
                    (DecSub OneDec (DecMul swapFee (DecSub OneDec normalizedWeightIn)))))
              (ToDec balance) normalizedWeightIn (ToDec totalShares) OneDec)
       (\<lambda>delta. Inr (TruncateInt (DecNeg delta))))"

text \<open>The spot price divides two weighted balances: the balance of an asset as a \<open>Dec\<close>,
  divided by its weight with \<open>QuoInt\<close>; \<open>weightedBalance\<close> is that number, in units of
  \<open>10^-18\<close>.\<close>

definition weightedBalance :: "PoolAsset \<Rightarrow> int" where
  "weightedBalance a = bigQuo (units (ToDec (Amount (Token a)))) (Weight a)"

text \<open>The invariant of the pool state: every asset balance is at least 0.\<close>

definition balancesNonNegative :: "Pool \<Rightarrow> bool" where
  "balancesNonNegative p = list_all (\<lambda>a. 0 \<le> Amount (Token a)) (PoolAssets p)"

section \<open>Concrete data for the evaluations\<close>

text \<open>Modelled from the spec: \<open>osmomath.Pow\<close> is not among the sources; the spec gives it
  as the power \<open>base ^ exp\<close> computed to a fixed tolerance. The evaluations below need
  it only where the power is exact: \<open>1 ^ e = 1\<close> and \<open>b ^ 1 = b\<close>, for a base
  between 0 and 2. This stand-in is defined there and panics everywhere else, so a run
  that returns with it relies on nothing else about exponentiation.\<close>

definition powExact :: power where
  "powExact base e =
     (if units base \<le> 0 \<or> 2 * precisionReuse \<le> units base then None
      else if base = OneDec then Some OneDec
      else if e = OneDec then Some base
      else None)"

text \<open>Modelled from the spec: \<open>types.CalcOutGivenIn\<close> is not among the sources; the spec
  gives its three steps, which are the formula above on the two assets it is handed.\<close>

definition specCalcOutGivenIn :: "power \<Rightarrow> calculator" where
  "specCalcOutGivenIn pow pool poolAssetIn poolAssetOut tokenInAmount swapFee =
     (case calcOutGivenIn_formula pow
             (Amount (Token poolAssetIn)) (Weight poolAssetIn)
             (Amount (Token poolAssetOut)) (Weight poolAssetOut) tokenInAmount swapFee of
        Inl e \<Rightarrow> None
      | Inr d \<Rightarrow> Some d)"

text \<open>A calculator that quotes the fixed amount 7, for runs of \<open>SwapExactAmountOut\<close>
  past its checks.\<close>

definition quoteSeven :: calculator where
  "quoteSeven pool poolAssetIn poolAssetOut amount swapFee = Some (ToDec 7)"

definition coin :: "string \<Rightarrow> int \<Rightarrow> Coin" where
  "coin d a = \<lparr>Denom = d, Amount = a\<rparr>"

definition asset :: "string \<Rightarrow> int \<Rightarrow> int \<Rightarrow> PoolAsset" where
  "asset d a w = \<lparr>Token = coin d a, Weight = w\<rparr>"

definition mkPool :: "int \<Rightarrow> PoolAsset list \<Rightarrow> Pool" where
  "mkPool shares assets =
     \<lparr>Id = 1, Address = ''pool1'', SwapFee = Dec 0, activeWindow = None,
      TotalShares = coin ''gamm/pool/1'' shares, PoolAssets = assets\<rparr>"

text \<open>A pool of 100 shares and two assets with balances 10 and 10 and equal weights,
  stored under its id 1; in \<open>keeper0\<close> the sender \<open>alice\<close> holds 100 of \<open>uatom\<close>, in
  \<open>keeperPoor\<close> she holds nothing. \<open>pool1000\<close> is the pool of scenario C, with balances
  1000 and 1000.\<close>

definition pool2 :: Pool where
  "pool2 = mkPool 100 [asset ''uatom'' 10 1, asset ''uosmo'' 10 1]"

definition pool1000 :: Pool where
  "pool1000 = mkPool 100 [asset ''uatom'' 1000 1, asset ''uosmo'' 1000 1]"

definition keeper0 :: Keeper where
  "keeper0 =
     \<lparr>pools = [1 \<mapsto> pool2],
      bank = (\<lambda>x. 0)((''alice'', ''uatom'') := 100, (''pool1'', ''uatom'') := 10,
                       (''pool1'', ''uosmo'') := 10)\<rparr>"

definition keeperPoor :: Keeper where
  "keeperPoor =
     \<lparr>pools = [1 \<mapsto> pool2],
      bank = (\<lambda>x. 0)((''pool1'', ''uatom'') := 10, (''pool1'', ''uosmo'') := 10)\<rparr>"

text \<open>In \<open>keeperDry\<close> the sender holds 100 of \<open>uatom\<close> and the account of the pool holds
  none of the 10 of \<open>uosmo\<close> that the pool records.\<close>

definition keeperDry :: Keeper where
  "keeperDry =
     \<lparr>pools = [1 \<mapsto> pool2],
      bank = (\<lambda>x. 0)((''alice'', ''uatom'') := 100, (''pool1'', ''uatom'') := 10)\<rparr>"


section \<open>Basic facts\<close>

lemma DecMul_commute: "DecMul a b = DecMul b a"
  by (simp add: DecMul_def mult.commute)

lemma solve_not_error:
  "solveConstantFunctionInvariant pow a b c d e = Inl x \<Longrightarrow> \<exists>q. x = Panic q"
  by (auto simp: solveConstantFunctionInvariant_def DecQuo_def bindE_def callPow_def
      split: if_splits option.splits sum.splits)

lemma calc_not_error:
  "calcPoolOutGivenSingleIn pow a b c d f = Inl e \<Longrightarrow> \<exists>q. e = Panic q"
  by (auto simp: calcPoolOutGivenSingleIn_def bindE_def Let_def split: sum.splits
      dest: solve_not_error)

lemma moveCoins_error: "moveCoins b x y cs = Inl e \<Longrightarrow> e = ErrInsufficientFunds"
  by (induction cs arbitrary: b) (auto simp: Let_def split: if_splits)

lemma SendCoins_error:
  "SendCoins b x y cs = Inl e \<Longrightarrow> e = ErrInvalidCoins \<or> e = ErrInsufficientFunds"
  by (auto simp: SendCoins_def split: if_splits dest: moveCoins_error)

lemma SendCoins_positive: "SendCoins b x y [c] = Inr b' \<Longrightarrow> 0 < Amount c"
  by (auto simp: SendCoins_def split: if_splits)

lemma SendCoins_covered: "SendCoins b x y [c] = Inr b' \<Longrightarrow> Amount c \<le> b (x, Denom c)"
  by (auto simp: SendCoins_def Let_def split: if_splits)

lemma SendCoins_other:
  "SendCoins b x y [c] = Inr b' \<Longrightarrow> d \<noteq> Denom c \<Longrightarrow> b' (z, d) = b (z, d)"
  by (auto simp: SendCoins_def Let_def split: if_splits)


lemma getPoolAndInOutAssets_found:
  "pools k poolId = Some p \<Longrightarrow> getPoolAssetByDenom (PoolAssets p) d1 = Some a \<Longrightarrow>
   getPoolAssetByDenom (PoolAssets p) d2 = Some b \<Longrightarrow>
   getPoolAndInOutAssets k poolId d1 d2 = Inr (p, a, b)"
  by (simp add: getPoolAndInOutAssets_def parsePoolAssetsByDenoms_def bindE_def)


subsection \<open>The loop of the exit\<close>

lemma setBalance_nonneg:
  "list_all (\<lambda>a. 0 \<le> Amount (Token a)) as \<Longrightarrow> 0 \<le> amt \<Longrightarrow>
   list_all (\<lambda>a. 0 \<le> Amount (Token a)) (setBalance as denom amt)"
  by (induction as) auto

lemma exitLoop_nonneg:
  "balancesNonNegative p \<Longrightarrow> balancesNonNegative (snd (exitLoop r bs exited p))"
proof (induction r bs exited p rule: exitLoop.induct)
  case (1 shareOutRatio exitedCoins p)
  then show ?case by simp
next
  case (2 shareOutRatio asset balances exitedCoins p)
  show ?case
  proof (cases "TruncateInt (DecMulInt shareOutRatio (Amount asset)) \<le> 0")
    case True
    with 2 show ?thesis by (simp add: Let_def)
  next
    case False
    show ?thesis
    proof (cases "\<not> ValidateDenom (Denom asset) \<or>
                  Amount asset - TruncateInt (DecMulInt shareOutRatio (Amount asset)) < 0")
      case True
      with False "2.prems" show ?thesis by (auto simp: Let_def NewCoin_def)
    next
      case nn: False
      have "balancesNonNegative (UpdatePoolAssetBalance p
              \<lparr>Denom = Denom asset,
                 Amount = Amount asset - TruncateInt (DecMulInt shareOutRatio (Amount asset))\<rparr>)"
        using "2.prems" nn
        by (simp add: balancesNonNegative_def UpdatePoolAssetBalance_def setBalance_nonneg)
      with False nn "2.IH"(2) show ?thesis
        by (simp add: Let_def NewCoin_def)
    qed
  qed
qed

lemma ExitPool_nonneg:
  "balancesNonNegative p \<Longrightarrow> balancesNonNegative (snd (ExitPool p exitingShares exitFee))"
proof -
  assume nn: "balancesNonNegative p"
  have "balancesNonNegative (snd (exitLoop r (GetTotalLpBalances p) [] p))" for r
    using nn by (rule exitLoop_nonneg)
  then have "\<And>r x p'. exitLoop r (GetTotalLpBalances p) [] p = (x, p') \<Longrightarrow> balancesNonNegative p'"
    by (metis snd_conv)
  with nn show ?thesis
    by (auto simp: ExitPool_def Let_def balancesNonNegative_def
        split: sum.splits prod.splits)
qed

text \<open>The ratio \<open>totalShares / refundedShares\<close> of an exit of fewer than all shares is
  above 1, so the amount that leaves an asset is never below its balance.\<close>

lemma exitAmt_covers_balance:
  assumes "0 < refundedShares" "refundedShares \<le> totalShares" "0 \<le> balance"
    and "DecQuoInt (ToDec totalShares) refundedShares = Inr shareOutRatio"
  shows "balance \<le> TruncateInt (DecMulInt shareOutRatio balance)"
proof -
  have r: "units shareOutRatio = (totalShares * 10 ^ 18) div refundedShares"
    using assms(1,2,4)
    by (auto simp: DecQuoInt_def ToDec_def bigQuo_def precisionReuse_def abs_mult
        split: if_splits)
  have "refundedShares * 10 ^ 18 \<le> totalShares * 10 ^ 18"
    using assms(2) by simp
  then have "(refundedShares * 10 ^ 18) div refundedShares
               \<le> (totalShares * 10 ^ 18) div refundedShares"
    using assms(1) by (intro zdiv_mono1) auto
  then have one: "10 ^ 18 \<le> units shareOutRatio"
    using assms(1) by (simp add: r)
  have "10 ^ 18 * balance \<le> units shareOutRatio * balance"
    using one assms(3) by (intro mult_right_mono) auto
  then have "(10 ^ 18 * balance) div 10 ^ 18 \<le> (units shareOutRatio * balance) div 10 ^ 18"
    by (intro zdiv_mono1) auto
  then have le: "balance \<le> (units shareOutRatio * balance) div 10 ^ 18"
    by simp
  have nn: "0 \<le> units shareOutRatio * balance"
    using one assms(3) by simp
  show ?thesis
  proof (cases "units shareOutRatio * balance = 0")
    case True
    with one have "balance = 0" by auto
    then show ?thesis
      by (simp add: TruncateInt_def chopPrecisionAndTruncate_def bigQuo_def DecMulInt_def
          precisionReuse_def)
  next
    case False
    with nn have "0 < units shareOutRatio * balance" by (simp only: order.strict_iff_order) auto
    with le show ?thesis
      by (simp add: TruncateInt_def chopPrecisionAndTruncate_def bigQuo_def DecMulInt_def
          precisionReuse_def)
  qed
qed

text \<open>An exit that returns has taken no more than the balance from any asset it took
  from: a larger amount panics in \<open>sdk.NewCoin\<close>.\<close>

lemma exitLoop_returns_within:
  "exitLoop r bs exited p = (Inr coins, p') \<Longrightarrow> c \<in> set bs \<Longrightarrow>
   0 < TruncateInt (DecMulInt r (Amount c)) \<Longrightarrow>
   TruncateInt (DecMulInt r (Amount c)) \<le> Amount c"
proof (induction r bs exited p rule: exitLoop.induct)
  case (1 shareOutRatio exitedCoins p)
  then show ?case by simp
next
  case (2 shareOutRatio a balances exitedCoins p)
  show ?case
  proof (cases "TruncateInt (DecMulInt shareOutRatio (Amount a)) \<le> 0")
    case True
    with "2.prems" have "c \<in> set balances" by auto
    with True 2 show ?thesis by (simp add: Let_def)
  next
    case False
    from False "2.prems"(1) have
      ok: "ValidateDenom (Denom a)"
        "0 \<le> Amount a - TruncateInt (DecMulInt shareOutRatio (Amount a))"
      by (auto simp: Let_def NewCoin_def split: if_splits)
    show ?thesis
    proof (cases "c = a")
      case True
      with ok show ?thesis by simp
    next
      case ne: False
      with "2.prems" have "c \<in> set balances" by auto
      with False ok "2.IH"(2) "2.prems"(1,3) show ?thesis
        by (simp add: Let_def NewCoin_def)
    qed
  qed
qed

lemma bigQuo_nonneg: "0 \<le> y \<Longrightarrow> bigQuo y precisionReuse = y div 10 ^ 18"
proof (cases "y = 0")
  case True
  then show ?thesis by (simp add: bigQuo_def)
next
  case False
  assume "0 \<le> y"
  with False have "0 < y" by simp
  then show ?thesis by (simp add: bigQuo_def precisionReuse_def)
qed

lemma refundedShares_bounds:
  assumes "0 < exitingShares" "0 \<le> units exitFee" "units exitFee \<le> 10 ^ 18"
  shows "0 \<le> TruncateInt (DecMulInt (DecSub OneDec exitFee) exitingShares) \<and>
         TruncateInt (DecMulInt (DecSub OneDec exitFee) exitingShares) \<le> exitingShares"
proof -
  define y where "y = (10 ^ 18 - units exitFee) * exitingShares"
  have y0: "0 \<le> y" using assms by (simp add: y_def)
  have "y \<le> 10 ^ 18 * exitingShares"
    unfolding y_def using assms by (intro mult_right_mono) auto
  then have "y div 10 ^ 18 \<le> (10 ^ 18 * exitingShares) div 10 ^ 18"
    by (intro zdiv_mono1) auto
  then have le: "y div 10 ^ 18 \<le> exitingShares" by simp
  have ge: "0 \<le> y div 10 ^ 18" using y0 by (simp add: pos_imp_zdiv_nonneg_iff)
  have t: "TruncateInt (DecMulInt (DecSub OneDec exitFee) exitingShares) = y div 10 ^ 18"
    using bigQuo_nonneg [OF y0]
    by (simp add: TruncateInt_def chopPrecisionAndTruncate_def DecMulInt_def
        DecSub_def OneDec_def y_def precisionReuse_def)
  from le ge t show ?thesis by simp
qed

subsection \<open>The pool after a swap\<close>

lemma getPoolAssetByDenom_setBalance_other:
  "d' \<noteq> d \<Longrightarrow> getPoolAssetByDenom (setBalance as d amt) d' = getPoolAssetByDenom as d'"
  by (induction as) auto

text \<open>A swap update that returns has written the pool with the two balances changed and
  made both transfers.\<close>

lemma updatePoolForSwap_success:
  assumes "updatePoolForSwap SetPool k pool sender tokenIn tokenOut = (Inr u, k')"
    and "getPoolAssetByDenom (PoolAssets pool) (Denom tokenIn) = Some a"
    and "getPoolAssetByDenom (PoolAssets pool) (Denom tokenOut) = Some b"
    and "Denom tokenIn \<noteq> Denom tokenOut"
  shows "\<exists>k1 b1 b2.
           SetPool k (pool\<lparr>PoolAssets :=
                   setBalance
                     (setBalance (PoolAssets pool) (Denom tokenIn)
                        (Amount (Token a) + Amount tokenIn))
                     (Denom tokenOut) (Amount (Token b) - Amount tokenOut)\<rparr>) = Some k1 \<and>
           SendCoins (bank k1) sender (Address pool) [tokenIn] = Inr b1 \<and>
           SendCoins b1 (Address pool) sender [tokenOut] = Inr b2 \<and>
           k' = k1\<lparr>bank := b2\<rparr>"
  using assms
  by (auto simp: updatePoolForSwap_def AddPoolAssetBalance_def SubPoolAssetBalance_def
      GetPoolAsset_def bindE_def Let_def getPoolAssetByDenom_setBalance_other
      split: sum.splits option.splits)

lemma swapped_nonneg:
  assumes "balancesNonNegative pool" and "0 \<le> x" and "0 \<le> y"
  shows "balancesNonNegative
           (pool\<lparr>PoolAssets := setBalance (setBalance (PoolAssets pool) d1 x) d2 y\<rparr>)"
  using assms by (simp add: balancesNonNegative_def setBalance_nonneg)

lemma found_in_set: "getPoolAssetByDenom as d = Some a \<Longrightarrow> a \<in> set as"
  by (induction as) (auto split: if_splits)

lemma found_nonneg:
  "balancesNonNegative pool \<Longrightarrow> getPoolAssetByDenom (PoolAssets pool) d = Some a \<Longrightarrow>
   0 \<le> Amount (Token a)"
  by (auto simp: balancesNonNegative_def list_all_iff dest: found_in_set)

lemma SwapExactAmountOut_success:
  assumes "SwapExactAmountOut calc SetPool k now sender poolId tokenInDenom tokenInMaxAmount
             tokenOut = (Inr n, k')"
    and "pools k poolId = Some p"
  shows "\<exists>a b d k1 b1 b2.
           getPoolAssetByDenom (PoolAssets p) tokenInDenom = Some a \<and>
           getPoolAssetByDenom (PoolAssets p) (Denom tokenOut) = Some b \<and>
           calc p a b (Amount tokenOut) (GetPoolSwapFee p) = Some d \<and> n = TruncateInt d \<and>
           tokenInDenom \<noteq> Denom tokenOut \<and> 0 < n \<and> Amount tokenOut < Amount (Token b) \<and>
           SetPool k (p\<lparr>PoolAssets :=
                      setBalance
                        (setBalance (PoolAssets p) tokenInDenom (Amount (Token a) + n))
                        (Denom tokenOut) (Amount (Token b) - Amount tokenOut)\<rparr>) = Some k1 \<and>
           SendCoins (bank k1) sender (Address p) [\<lparr>Denom = tokenInDenom, Amount = n\<rparr>] = Inr b1 \<and>
           SendCoins b1 (Address p) sender [tokenOut] = Inr b2 \<and>
           k' = k1\<lparr>bank := b2\<rparr>"
proof -
  from assms obtain a b where
    a: "getPoolAssetByDenom (PoolAssets p) tokenInDenom = Some a"
    and b: "getPoolAssetByDenom (PoolAssets p) (Denom tokenOut) = Some b"
    by (auto simp: SwapExactAmountOut_def getPoolAndInOutAssets_def parsePoolAssetsByDenoms_def
        bindE_def split: if_splits option.splits)
  have g: "getPoolAndInOutAssets k poolId tokenInDenom (Denom tokenOut) = Inr (p, a, b)"
    using assms(2) a b by (rule getPoolAndInOutAssets_found)
  from assms(1) g obtain u d where
    ne: "tokenInDenom \<noteq> Denom tokenOut" and n: "0 < n" and lt: "Amount tokenOut < Amount (Token b)"
    and d: "calc p a b (Amount tokenOut) (GetPoolSwapFee p) = Some d" "n = TruncateInt d"
    and upd: "updatePoolForSwap SetPool k p sender \<lparr>Denom = tokenInDenom, Amount = n\<rparr> tokenOut
                = (Inr u, k')"
    by (auto simp: SwapExactAmountOut_def Let_def split: if_splits option.splits sum.splits prod.splits)
  have a': "getPoolAssetByDenom (PoolAssets p) (Denom \<lparr>Denom = tokenInDenom, Amount = n\<rparr>) = Some a"
    using a by simp
  have ne': "Denom \<lparr>Denom = tokenInDenom, Amount = n\<rparr> \<noteq> Denom tokenOut"
    using ne by simp
  from updatePoolForSwap_success [OF upd a' b ne']
  obtain k1 b1 b2 where
    "SetPool k (p\<lparr>PoolAssets :=
                      setBalance
                        (setBalance (PoolAssets p) tokenInDenom (Amount (Token a) + n))
                        (Denom tokenOut) (Amount (Token b) - Amount tokenOut)\<rparr>) = Some k1"
    "SendCoins (bank k1) sender (Address p) [\<lparr>Denom = tokenInDenom, Amount = n\<rparr>] = Inr b1"
    "SendCoins b1 (Address p) sender [tokenOut] = Inr b2"
    "k' = k1\<lparr>bank := b2\<rparr>"
    by auto
  with a b d ne n lt show ?thesis by blast
qed

lemma SwapExactAmountIn_success:
  assumes "SwapExactAmountIn calc SetPool k now sender poolId tokenIn tokenOutDenom
             tokenOutMinAmount = (Inr n, k')"
    and "pools k poolId = Some p"
  shows "\<exists>a b d k1 b1 b2.
           getPoolAssetByDenom (PoolAssets p) (Denom tokenIn) = Some a \<and>
           getPoolAssetByDenom (PoolAssets p) tokenOutDenom = Some b \<and>
           calc p a b (Amount tokenIn) (GetPoolSwapFee p) = Some d \<and> n = TruncateInt d \<and>
           Denom tokenIn \<noteq> tokenOutDenom \<and> 0 < n \<and>
           SetPool k (p\<lparr>PoolAssets :=
                      setBalance
                        (setBalance (PoolAssets p) (Denom tokenIn)
                           (Amount (Token a) + Amount tokenIn))
                        tokenOutDenom (Amount (Token b) - n)\<rparr>) = Some k1 \<and>
           SendCoins (bank k1) sender (Address p) [tokenIn] = Inr b1 \<and>
           SendCoins b1 (Address p) sender [\<lparr>Denom = tokenOutDenom, Amount = n\<rparr>] = Inr b2 \<and>
           k' = k1\<lparr>bank := b2\<rparr>"
proof -
  from assms obtain a b where
    a: "getPoolAssetByDenom (PoolAssets p) (Denom tokenIn) = Some a"
    and b: "getPoolAssetByDenom (PoolAssets p) tokenOutDenom = Some b"
    by (auto simp: SwapExactAmountIn_def getPoolAndInOutAssets_def parsePoolAssetsByDenoms_def
        bindE_def split: if_splits option.splits)
  have g: "getPoolAndInOutAssets k poolId (Denom tokenIn) tokenOutDenom = Inr (p, a, b)"
    using assms(2) a b by (rule getPoolAndInOutAssets_found)
  from assms(1) g obtain u d where
    ne: "Denom tokenIn \<noteq> tokenOutDenom" and n: "0 < n"
    and d: "calc p a b (Amount tokenIn) (GetPoolSwapFee p) = Some d" "n = TruncateInt d"
    and upd: "updatePoolForSwap SetPool k p sender tokenIn \<lparr>Denom = tokenOutDenom, Amount = n\<rparr>
                = (Inr u, k')"
    by (auto simp: SwapExactAmountIn_def Let_def split: if_splits option.splits sum.splits prod.splits)
  have b': "getPoolAssetByDenom (PoolAssets p) (Denom \<lparr>Denom = tokenOutDenom, Amount = n\<rparr>) = Some b"
    using b by simp
  have ne': "Denom tokenIn \<noteq> Denom \<lparr>Denom = tokenOutDenom, Amount = n\<rparr>"
    using ne by simp
  from updatePoolForSwap_success [OF upd a b' ne']
  obtain k1 b1 b2 where
    "SetPool k (p\<lparr>PoolAssets :=
                      setBalance
                        (setBalance (PoolAssets p) (Denom tokenIn)
                           (Amount (Token a) + Amount tokenIn))
                        tokenOutDenom (Amount (Token b) - n)\<rparr>) = Some k1"
    "SendCoins (bank k1) sender (Address p) [tokenIn] = Inr b1"
    "SendCoins b1 (Address p) sender [\<lparr>Denom = tokenOutDenom, Amount = n\<rparr>] = Inr b2"
    "k' = k1\<lparr>bank := b2\<rparr>"
    by auto
  with a b d ne n show ?thesis by blast
qed

lemma SwapExactAmountIn_pool:
  "SwapExactAmountIn calc SetPool k now sender poolId tokenIn tokenOutDenom tokenOutMinAmount
     = (Inr n, k') \<Longrightarrow> \<exists>p. pools k poolId = Some p"
  by (auto simp: SwapExactAmountIn_def getPoolAndInOutAssets_def
      split: if_splits option.splits)

lemma SwapExactAmountOut_pool:
  "SwapExactAmountOut calc SetPool k now sender poolId tokenInDenom tokenInMaxAmount tokenOut
     = (Inr n, k') \<Longrightarrow> \<exists>p. pools k poolId = Some p"
  by (auto simp: SwapExactAmountOut_def getPoolAndInOutAssets_def
      split: if_splits option.splits)

text \<open>A swap update that fails with any error but the bank's has written nothing.\<close>

lemma updatePoolForSwap_failure:
  "updatePoolForSwap SetPool k pool sender tokenIn tokenOut = (Inl e, k') \<Longrightarrow>
     e \<noteq> ErrInvalidCoins \<Longrightarrow> e \<noteq> ErrInsufficientFunds \<Longrightarrow> k' = k"
  by (auto simp: updatePoolForSwap_def Let_def
      split: sum.splits option.splits dest: SendCoins_error)

subsection \<open>The rounding of a product and of a quotient\<close>

lemma chopRoundPos_cases:
  "chopRoundPos t = t div 10 ^ 18 \<and> t mod 10 ^ 18 \<le> 5 * 10 ^ 17 \<or>
   chopRoundPos t = t div 10 ^ 18 + 1 \<and> 5 * 10 ^ 17 \<le> t mod 10 ^ 18"
  by (auto simp: chopRoundPos_def precisionReuse_def fivePrecision_def Let_def)

lemma chopRoundPos_nonneg: "0 \<le> t \<Longrightarrow> 0 \<le> chopRoundPos t"
  using chopRoundPos_cases [of t] by (auto simp: pos_imp_zdiv_nonneg_iff)

text \<open>Rounding the last 18 digits away does not lift a number over a bound that is
  whole.\<close>

lemma chopPrecisionAndRound_le:
  assumes "t \<le> B * 10 ^ 18" and "0 \<le> B"
  shows "chopPrecisionAndRound t \<le> B"
proof (cases "t < 0")
  case True
  then have "0 \<le> chopRoundPos (- t)" by (intro chopRoundPos_nonneg) simp
  with True assms(2) show ?thesis by (simp add: chopPrecisionAndRound_def)
next
  case False
  define q where "q = t div 1000000000000000000"
  define r where "r = t mod 1000000000000000000"
  have t: "t = 1000000000000000000 * q + r" and r: "0 \<le> r" "r < 1000000000000000000"
    by (simp_all add: q_def r_def)
  have c: "chopRoundPos t = q \<or> chopRoundPos t = q + 1 \<and> 500000000000000000 \<le> r"
    using chopRoundPos_cases [of t] by (auto simp: q_def r_def)
  have "q \<le> B \<and> (500000000000000000 \<le> r \<longrightarrow> q + 1 \<le> B)"
    using t r assms(1) by auto
  with c False show ?thesis by (auto simp: chopPrecisionAndRound_def)
qed

text \<open>The formula of the amount out never exceeds the balance it is paid from, when the
  power is not negative.\<close>

lemma calcOutGivenIn_formula_le:
  assumes "calcOutGivenIn_formula pow balanceIn weightIn balanceOut weightOut tokenInAmount
             swapFee = Inr d"
    and "0 \<le> balanceOut"
    and "\<forall>b e v. pow b e = Some v \<longrightarrow> 0 \<le> units v"
  shows "TruncateInt d \<le> balanceOut"
proof -
  from assms(1) obtain b e foo where
    p: "pow b e = Some foo" and d: "d = DecMul (ToDec balanceOut) (DecSub OneDec foo)"
    by (auto simp: calcOutGivenIn_formula_def bindE_def split: sum.splits option.splits)
  from assms(3) p have foo: "0 \<le> units foo" by blast
  have "balanceOut * 10 ^ 18 * (10 ^ 18 - units foo) \<le> balanceOut * 10 ^ 18 * 10 ^ 18"
    using assms(2) foo by (intro mult_left_mono) auto
  then have "chopPrecisionAndRound (balanceOut * 10 ^ 18 * (10 ^ 18 - units foo))
               \<le> balanceOut * 10 ^ 18"
    using assms(2) by (intro chopPrecisionAndRound_le) auto
  then have u: "units d \<le> balanceOut * 10 ^ 18"
    by (simp add: d DecMul_def ToDec_def DecSub_def OneDec_def precisionReuse_def)
  show ?thesis
  proof (cases "units d \<le> 0")
    case True
    then have "TruncateInt d \<le> 0"
      by (cases "units d = 0")
         (auto simp: TruncateInt_def chopPrecisionAndTruncate_def bigQuo_def precisionReuse_def
           pos_imp_zdiv_nonneg_iff)
    with assms(2) show ?thesis by simp
  next
    case False
    then have "TruncateInt d = units d div 10 ^ 18"
      by (simp add: TruncateInt_def chopPrecisionAndTruncate_def bigQuo_def precisionReuse_def)
    moreover have "units d div 10 ^ 18 \<le> (balanceOut * 10 ^ 18) div 10 ^ 18"
      using u by (intro zdiv_mono1) auto
    ultimately show ?thesis by simp
  qed
qed

lemma powExact_nonneg: "powExact b e = Some v \<Longrightarrow> 0 \<le> units v"
  by (auto simp: powExact_def OneDec_def precisionReuse_def split: if_splits)

lemma chopRoundPos_ge_one: "10 ^ 18 \<le> t \<Longrightarrow> 1 \<le> chopRoundPos t"
proof -
  assume t: "10 ^ 18 \<le> t"
  then have "(10 ^ 18 :: int) div 10 ^ 18 \<le> t div 10 ^ 18" by (intro zdiv_mono1) auto
  then have "1 \<le> t div 10 ^ 18" by simp
  with chopRoundPos_cases [of t] show ?thesis by auto
qed

lemma chopPrecisionAndRound_negative:
  "t \<le> - (10 ^ 18) \<Longrightarrow> chopPrecisionAndRound t \<le> - 1"
  using chopRoundPos_ge_one [of "- t"] by (simp add: chopPrecisionAndRound_def)

lemma chopRoundPos_error:
  assumes "0 \<le> t"
  shows "\<bar>chopRoundPos t * 10 ^ 18 - t\<bar> \<le> 5 * 10 ^ 17"
proof -
  define q where "q = t div 1000000000000000000"
  define r where "r = t mod 1000000000000000000"
  have t: "t = 1000000000000000000 * q + r" and r: "0 \<le> r" "r < 1000000000000000000"
    by (simp_all add: q_def r_def)
  have "chopRoundPos t = q \<and> r \<le> 500000000000000000 \<or>
        chopRoundPos t = q + 1 \<and> 500000000000000000 \<le> r"
    by (auto simp: chopRoundPos_def precisionReuse_def fivePrecision_def Let_def
        q_def [symmetric] r_def [symmetric])
  with t r show ?thesis by auto
qed
lemma quoDec_error:
  assumes "0 < n" "0 < d"
  shows "\<bar>units (quoDec (Dec n) (Dec d)) * d - n * 10 ^ 18\<bar> \<le> d"
proof -
  define t where "t = (1000000000000000000000000000000000000 * n) div d"
  define P where "P = chopRoundPos t"
  have t0: "0 \<le> t" using assms by (simp add: t_def pos_imp_zdiv_nonneg_iff)
  have u: "units (quoDec (Dec n) (Dec d)) = P"
    using assms t0
    by (simp add: quoDec_def bigQuo_def precisionReuse_def chopPrecisionAndRound_def
        P_def t_def abs_mult)
  have md: "0 \<le> (1000000000000000000000000000000000000 * n) mod d"
      "(1000000000000000000000000000000000000 * n) mod d < d"
    using assms(2) by simp_all
  have split: "1000000000000000000000000000000000000 * n =
      d * t + (1000000000000000000000000000000000000 * n) mod d"
    unfolding t_def by simp
  have lo: "d * t \<le> n * 1000000000000000000000000000000000000"
    using md split by linarith
  have hi: "n * 1000000000000000000000000000000000000 < d * t + d"
    using md split by linarith
  have e: "\<bar>P * 1000000000000000000 - t\<bar> \<le> 500000000000000000"
    using chopRoundPos_error [OF t0] by (simp add: P_def)
  have "d * \<bar>P * 1000000000000000000 - t\<bar> \<le> d * 500000000000000000"
    using e assms(2) by (intro mult_left_mono) auto
  then have "\<bar>d * (P * 1000000000000000000 - t)\<bar> \<le> d * 500000000000000000"
    using assms(2) by (simp add: abs_mult)
  then have "\<bar>1000000000000000000 * (P * d) - d * t\<bar> \<le> 500000000000000000 * d"
    by (simp add: algebra_simps)
  with lo hi assms(2) have "\<bar>1000000000000000000 * (P * d) - n * 1000000000000000000000000000000000000\<bar>
      \<le> 1000000000000000000 * d"
    by linarith
  then have "\<bar>P * d - n * 1000000000000000000\<bar> \<le> d"
    by linarith
  then show ?thesis by (simp add: u)
qed

lemma reciprocal_bound:
  fixes n d P R K :: int
  assumes "0 < n" "0 < d" "0 \<le> K"
    and A: "\<bar>P * d - n * K\<bar> \<le> d" and B: "\<bar>R * n - d * K\<bar> \<le> n"
  shows "n * d * \<bar>P * R - K * K\<bar> \<le> K * (n * n + d * d) + n * d"
proof -
  define a where "a = P * d - n * K"
  define b where "b = R * n - d * K"
  have eq: "n * d * (P * R - K * K) = K * (n * b + d * a) + a * b"
    by (simp add: a_def b_def algebra_simps)
  have a: "\<bar>a\<bar> \<le> d" and b: "\<bar>b\<bar> \<le> n" using A B by (simp_all add: a_def b_def)
  have nb: "\<bar>n * b\<bar> \<le> n * n"
    using assms(1) b by (simp add: abs_mult mult_left_mono)
  have da: "\<bar>d * a\<bar> \<le> d * d"
    using assms(2) a by (simp add: abs_mult mult_left_mono)
  have "\<bar>a\<bar> * \<bar>b\<bar> \<le> d * n"
    using a b by (intro mult_mono) auto
  then have ab: "\<bar>a * b\<bar> \<le> n * d"
    by (simp add: abs_mult mult.commute)
  have "\<bar>K * (n * b + d * a)\<bar> \<le> K * (n * n + d * d)"
  proof -
    have "\<bar>n * b + d * a\<bar> \<le> n * n + d * d" using nb da by linarith
    then show ?thesis using assms(3) by (simp add: abs_mult mult_left_mono)
  qed
  with ab have "\<bar>K * (n * b + d * a) + a * b\<bar> \<le> K * (n * n + d * d) + n * d"
    using abs_triangle_ineq [of "K * (n * b + d * a)" "a * b"] by linarith
  then have "\<bar>n * d * (P * R - K * K)\<bar> \<le> K * (n * n + d * d) + n * d"
    by (simp only: eq)
  moreover have "\<bar>n * d * (P * R - K * K)\<bar> = n * d * \<bar>P * R - K * K\<bar>"
    using assms(1,2) by (simp add: abs_mult)
  ultimately show ?thesis by simp
qed

lemma weightedBalance_weight: "0 < weightedBalance a \<Longrightarrow> Weight a \<noteq> 0"
  by (auto simp: weightedBalance_def bigQuo_def)

section \<open>The invariant solver\<close>

text \<open>
  Claim C7, as amended. \<open>solveConstantFunctionInvariant\<close> returns a \<open>Dec\<close> and no error; it
  fails only by a panic. It panics with a division by zero when \<open>weightUnknown\<close> or
  \<open>balanceFixedAfter\<close> is zero. It has no check of its own for negative values: when both
  are not zero it hands the two quotients to \<open>Pow\<close>, fails exactly when \<open>Pow\<close> panics,
  and otherwise returns \<open>balanceUnknownBefore * (1 - foo)\<close>.
\<close>

theorem solveConstantFunctionInvariant_failure:
  "solveConstantFunctionInvariant pow balanceFixedBefore balanceFixedAfter weightFixed
       balanceUnknownBefore weightUnknown =
     (if units weightUnknown = 0 \<or> units balanceFixedAfter = 0 then Inl (Panic DivisionByZero)
      else case pow (quoDec balanceFixedBefore balanceFixedAfter)
                    (quoDec weightFixed weightUnknown) of
             None \<Rightarrow> Inl (Panic PowPanic)
           | Some foo \<Rightarrow> Inr (DecMul balanceUnknownBefore (DecSub OneDec foo)))"
  by (simp add: solveConstantFunctionInvariant_def DecQuo_def bindE_def callPow_def
      split: option.splits)

text \<open>
  Counterexample to claim C7 as stated: with \<open>balanceFixedBefore = balanceFixedAfter = -1\<close>
  and both weights 1 the quotients are \<open>1\<close> and \<open>1\<close>, the power \<open>1 ^ 1\<close> is \<open>1\<close>, and the
  solver returns \<open>5 * (1 - 1) = 0\<close> although \<open>balanceFixedAfter\<close> is negative.
\<close>

theorem solveConstantFunctionInvariant_negative_counterexample:
  "solveConstantFunctionInvariant powExact (ToDec (- 1)) (ToDec (- 1)) (ToDec 1) (ToDec 5) (ToDec 1)
     = Inr (Dec 0)"
  by code_simp

section \<open>The swap calculators\<close>




text \<open>
  Claim C4. \<open>CalcInAmtGivenOut\<close> evaluates \<open>solveInvariant(balanceOut, balanceOut -
  tokenOutAmount, weightOut, balanceIn, weightIn) / (1 - swapFee)\<close> and hands the value to
  \<open>NewDecCoinFromDec\<close> as it is. By the solver's sign convention (lines 16-17) the value
  is negative for the side whose balance grows; \<open>calcPoolOutGivenSingleIn\<close> negates it
  (line 146), \<open>CalcInAmtGivenOut\<close> does not, and the coin of a negative amount panics.
  Hence, for every trade of an amount between 0 and the balance of the asset paid out,
  from a pool with a positive balance of the asset paid in, at a fee of at least 0 and
  below 1: \<open>CalcInAmtGivenOut\<close> panics instead of returning the amount in, for every
  power function whose value at the base \<open>balanceOut / (balanceOut - tokenOutAmount)\<close>,
  which is above 1, is above 1.
\<close>

theorem CalcInAmtGivenOut_negative:
  assumes "getPoolAssetByDenom (PoolAssets p) (Denom tokenOut) = Some b"
    and "getPoolAssetByDenom (PoolAssets p) tokenInDenom = Some a"
    and "0 < Amount tokenOut" and "Amount tokenOut < Amount (Token b)"
    and "0 < Amount (Token a)" and "Weight a \<noteq> 0"
    and "0 \<le> units swapFee" and "units swapFee < 10 ^ 18"
    and "ValidateDenom tokenInDenom"
    and "pow (quoDec (ToDec (Amount (Token b))) (ToDec (Amount (Token b) - Amount tokenOut)))
             (quoDec (ToDec (Weight b)) (ToDec (Weight a))) = Some foo"
    and "10 ^ 18 < units foo"
  shows "CalcInAmtGivenOut pow p [tokenOut] tokenInDenom swapFee
           = Inl (Panic NegativeCoinAmount)"
proof -
  define v where "v = DecMul (ToDec (Amount (Token a))) (DecSub OneDec foo)"
  have s: "solveConstantFunctionInvariant pow (ToDec (Amount (Token b)))
             (DecSub (ToDec (Amount (Token b))) (ToDec (Amount tokenOut)))
             (ToDec (Weight b)) (ToDec (Amount (Token a))) (ToDec (Weight a)) = Inr v"
    using assms(4,6,10)
    by (simp add: solveConstantFunctionInvariant_def DecQuo_def bindE_def callPow_def
        ToDec_def DecSub_def precisionReuse_def v_def algebra_simps)
  have "Amount (Token a) * 10 ^ 18 * (10 ^ 18 - units foo) \<le> Amount (Token a) * 10 ^ 18 * (- 1)"
    using assms(5,11) by (intro mult_left_mono) auto
  also have "\<dots> \<le> - (10 ^ 18)" using assms(5) by simp
  finally have "chopPrecisionAndRound (Amount (Token a) * 10 ^ 18 * (10 ^ 18 - units foo)) \<le> - 1"
    by (rule chopPrecisionAndRound_negative)
  then have v: "units v \<le> - 1"
    by (simp add: v_def DecMul_def ToDec_def DecSub_def OneDec_def precisionReuse_def)
  define g where "g = 10 ^ 18 - units swapFee"
  have g: "0 < g" "g \<le> 10 ^ 18" using assms(7,8) by (simp_all add: g_def)
  define w where "w = (- units v) * 10 ^ 18 * 10 ^ 18"
  have w: "10 ^ 18 * g \<le> w"
  proof -
    have "10 ^ 18 * g \<le> 10 ^ 18 * 10 ^ 18" using g by simp
    also have "\<dots> \<le> w" using v by (simp add: w_def)
    finally show ?thesis .
  qed
  have "(10 ^ 18 * g) div g \<le> w div g"
    using w g(1) by (intro zdiv_mono1) auto
  then have wd: "10 ^ 18 \<le> w div g" using g(1) by simp
  have ug: "units (DecSub OneDec swapFee) = g"
    by (simp add: DecSub_def OneDec_def precisionReuse_def g_def)
  have x: "units v * precisionReuse * precisionReuse = - w"
    by (simp add: w_def precisionReuse_def)
  have "0 < 10 ^ 18 * g" using g(1) by simp
  with w have wpos: "0 < w" by linarith
  have "bigQuo (- w) g = - (w div g)"
    using wpos g(1) by (simp add: bigQuo_def)
  then have q: "units (quoDec v (DecSub OneDec swapFee)) = chopPrecisionAndRound (- (w div g))"
    by (simp add: quoDec_def ug x)
  have neg: "units (quoDec v (DecSub OneDec swapFee)) < 0"
    using chopPrecisionAndRound_negative [of "- (w div g)"] wd by (simp add: q)
  have d: "DecQuo v (DecSub OneDec swapFee) = Inr (quoDec v (DecSub OneDec swapFee))"
    using g(1) by (simp add: DecQuo_def ug)
  show ?thesis
    using assms(1,2,9) s d neg
    by (simp add: CalcInAmtGivenOut_def parsePoolAssets_def parsePoolAssetsByDenoms_def
        bindE_def Let_def NewDecCoinFromDec_def DecIsNegative_def)
qed

text \<open>
  Witness for C4: 1 of \<open>uosmo\<close> out of a balance of 4, with 10 of \<open>uatom\<close> on the other
  side, equal weights and no fee. The base is \<open>4 / 3\<close>, the exponent 1, the solver's
  value \<open>10 * (1 - 4/3) = -3.33...\<close>, and the call panics instead of returning the amount
  in of \<open>3.33...\<close>.
\<close>

theorem CalcInAmtGivenOut_negative_witness:
  "getPoolAssetByDenom (PoolAssets (mkPool 100 [asset ''uatom'' 10 1, asset ''uosmo'' 4 1]))
     (Denom (coin ''uosmo'' 1)) = Some (asset ''uosmo'' 4 1) \<and>
   getPoolAssetByDenom (PoolAssets (mkPool 100 [asset ''uatom'' 10 1, asset ''uosmo'' 4 1]))
     ''uatom'' = Some (asset ''uatom'' 10 1) \<and>
   0 < Amount (coin ''uosmo'' 1) \<and>
   Amount (coin ''uosmo'' 1) < Amount (Token (asset ''uosmo'' 4 1)) \<and>
   0 < Amount (Token (asset ''uatom'' 10 1)) \<and> Weight (asset ''uatom'' 10 1) \<noteq> 0 \<and>
   0 \<le> units (Dec 0) \<and> units (Dec 0) < 10 ^ 18 \<and> ValidateDenom ''uatom'' \<and>
   powExact (quoDec (ToDec 4) (ToDec (4 - 1))) (quoDec (ToDec 1) (ToDec 1))
     = Some (Dec 1333333333333333333) \<and>
   (10 ^ 18 :: int) < units (Dec 1333333333333333333) \<and>
   calcInGivenOut_formula powExact 4 1 10 1 1 (Dec 0) = Inr (Dec (- 3333333333333333330)) \<and>
   CalcInAmtGivenOut powExact (mkPool 100 [asset ''uatom'' 10 1, asset ''uosmo'' 4 1])
       [coin ''uosmo'' 1] ''uatom'' (Dec 0) = Inl (Panic NegativeCoinAmount)"
proof -
  have h1: "getPoolAssetByDenom (PoolAssets (mkPool 100 [asset ''uatom'' 10 1, asset ''uosmo'' 4 1]))
     (Denom (coin ''uosmo'' 1)) = Some (asset ''uosmo'' 4 1)" by code_simp
  have h2: "getPoolAssetByDenom (PoolAssets (mkPool 100 [asset ''uatom'' 10 1, asset ''uosmo'' 4 1]))
     ''uatom'' = Some (asset ''uatom'' 10 1)" by code_simp
  have h3: "0 < Amount (coin ''uosmo'' 1)" by code_simp
  have h4: "Amount (coin ''uosmo'' 1) < Amount (Token (asset ''uosmo'' 4 1))" by code_simp
  have h5: "0 < Amount (Token (asset ''uatom'' 10 1))" by code_simp
  have h6: "Weight (asset ''uatom'' 10 1) \<noteq> 0" by code_simp
  have h7: "0 \<le> units (Dec 0)" and h8: "units (Dec 0) < 10 ^ 18" by simp_all
  have h9: "ValidateDenom ''uatom''" by code_simp
  have h10: "powExact (quoDec (ToDec (Amount (Token (asset ''uosmo'' 4 1))))
                  (ToDec (Amount (Token (asset ''uosmo'' 4 1)) - Amount (coin ''uosmo'' 1))))
               (quoDec (ToDec (Weight (asset ''uosmo'' 4 1))) (ToDec (Weight (asset ''uatom'' 10 1))))
             = Some (Dec 1333333333333333333)" by code_simp
  have h10': "powExact (quoDec (ToDec 4) (ToDec (4 - 1))) (quoDec (ToDec 1) (ToDec 1))
     = Some (Dec 1333333333333333333)" by code_simp
  have h11: "(10 ^ 18 :: int) < units (Dec 1333333333333333333)" by simp
  have f: "calcInGivenOut_formula powExact 4 1 10 1 1 (Dec 0)
             = Inr (Dec (- 3333333333333333330))" by code_simp
  from CalcInAmtGivenOut_negative [where pow = powExact, OF h1 h2 h3 h4 h5 h6 h7 h8 h9 h10 h11]
    h1 h2 h3 h4 h5 h6 h7 h8 h9 h10' h11 f
  show ?thesis by (intro conjI)
qed

section \<open>The spot price\<close>

text \<open>
  Claim C10, as amended. When the two weighted balances \<open>n\<close> (base) and \<open>d\<close> (quote) are
  positive, both spot prices are returned, \<open>P = n / d\<close> and \<open>R = d / n\<close> as rounded by
  \<open>Quo\<close>, and their exact product differs from 1 by at most
  \<open>10^-18 * (n/d + d/n) + 10^-36\<close>: in units of \<open>10^-18\<close>,
  \<open>n * d * |P * R - 10^36| \<le> 10^18 * (n^2 + d^2) + n * d\<close>. The bound grows with the price;
  no tolerance that is independent of the price holds.
\<close>

theorem SpotPrice_reciprocal:
  assumes "getPoolAssetByDenom (PoolAssets p) quoteAsset = Some q"
    and "getPoolAssetByDenom (PoolAssets p) baseAsset = Some b"
    and "0 < weightedBalance q" and "0 < weightedBalance b"
  shows "SpotPrice p quoteAsset baseAsset
           = Inr (quoDec (Dec (weightedBalance b)) (Dec (weightedBalance q))) \<and>
         SpotPrice p baseAsset quoteAsset
           = Inr (quoDec (Dec (weightedBalance q)) (Dec (weightedBalance b))) \<and>
         weightedBalance b * weightedBalance q *
           \<bar>units (quoDec (Dec (weightedBalance b)) (Dec (weightedBalance q))) *
            units (quoDec (Dec (weightedBalance q)) (Dec (weightedBalance b))) - 10 ^ 36\<bar>
         \<le> 10 ^ 18 * (weightedBalance b * weightedBalance b
                        + weightedBalance q * weightedBalance q)
            + weightedBalance b * weightedBalance q"
proof (intro conjI)
  have wq: "Weight q \<noteq> 0" and wb: "Weight b \<noteq> 0"
    using assms(3,4) by (auto dest: weightedBalance_weight)
  show "SpotPrice p quoteAsset baseAsset
           = Inr (quoDec (Dec (weightedBalance b)) (Dec (weightedBalance q)))"
    using assms wq wb
    by (simp add: SpotPrice_def parsePoolAssetsByDenoms_def bindE_def DecQuoInt_def DecQuo_def
        weightedBalance_def)
  show "SpotPrice p baseAsset quoteAsset
           = Inr (quoDec (Dec (weightedBalance q)) (Dec (weightedBalance b)))"
    using assms wq wb
    by (simp add: SpotPrice_def parsePoolAssetsByDenoms_def bindE_def DecQuoInt_def DecQuo_def
        weightedBalance_def)
  have "weightedBalance b * weightedBalance q *
           \<bar>units (quoDec (Dec (weightedBalance b)) (Dec (weightedBalance q))) *
            units (quoDec (Dec (weightedBalance q)) (Dec (weightedBalance b))) - 10 ^ 18 * 10 ^ 18\<bar>
         \<le> 10 ^ 18 * (weightedBalance b * weightedBalance b
                        + weightedBalance q * weightedBalance q)
            + weightedBalance b * weightedBalance q"
    by (rule reciprocal_bound [OF assms(4) assms(3) _
          quoDec_error [OF assms(4) assms(3)] quoDec_error [OF assms(3) assms(4)]]) simp
  then show "weightedBalance b * weightedBalance q *
           \<bar>units (quoDec (Dec (weightedBalance b)) (Dec (weightedBalance q))) *
            units (quoDec (Dec (weightedBalance q)) (Dec (weightedBalance b))) - 10 ^ 36\<bar>
         \<le> 10 ^ 18 * (weightedBalance b * weightedBalance b
                        + weightedBalance q * weightedBalance q)
            + weightedBalance b * weightedBalance q"
    by simp
qed

text \<open>
  Witness for C10: balances 10 and 30 with equal weights give the prices 3 and
  0.333333333333333333.
\<close>

theorem SpotPrice_reciprocal_witness:
  "getPoolAssetByDenom (PoolAssets (mkPool 100 [asset ''a'' 10 1, asset ''b'' 30 1])) ''a''
     = Some (asset ''a'' 10 1) \<and>
   getPoolAssetByDenom (PoolAssets (mkPool 100 [asset ''a'' 10 1, asset ''b'' 30 1])) ''b''
     = Some (asset ''b'' 30 1) \<and>
   0 < weightedBalance (asset ''a'' 10 1) \<and> 0 < weightedBalance (asset ''b'' 30 1) \<and>
   SpotPrice (mkPool 100 [asset ''a'' 10 1, asset ''b'' 30 1]) ''a'' ''b''
     = Inr (Dec 3000000000000000000) \<and>
   SpotPrice (mkPool 100 [asset ''a'' 10 1, asset ''b'' 30 1]) ''b'' ''a''
     = Inr (Dec 333333333333333333)"
proof -
  have h1: "getPoolAssetByDenom (PoolAssets (mkPool 100 [asset ''a'' 10 1, asset ''b'' 30 1])) ''a''
     = Some (asset ''a'' 10 1)" by code_simp
  have h2: "getPoolAssetByDenom (PoolAssets (mkPool 100 [asset ''a'' 10 1, asset ''b'' 30 1])) ''b''
     = Some (asset ''b'' 30 1)" by code_simp
  have h3: "0 < weightedBalance (asset ''a'' 10 1)" by code_simp
  have h4: "0 < weightedBalance (asset ''b'' 30 1)" by code_simp
  have e1: "quoDec (Dec (weightedBalance (asset ''b'' 30 1))) (Dec (weightedBalance (asset ''a'' 10 1)))
     = Dec 3000000000000000000" by code_simp
  have e2: "quoDec (Dec (weightedBalance (asset ''a'' 10 1))) (Dec (weightedBalance (asset ''b'' 30 1)))
     = Dec 333333333333333333" by code_simp
  from SpotPrice_reciprocal [OF h1 h2 h3 h4] h1 h2 h3 h4 e1 e2
  show ?thesis by (simp only: simp_thms)
qed

text \<open>
  Counterexample to claim C10 as stated: with balances \<open>10^19\<close> and 1 and equal weights
  one price rounds to 0 and the other is \<open>10^19\<close>, so the product is 0; with balances 1
  and 1 and weights 1 and \<open>10^19\<close> one weighted balance truncates to 0, one price is 0
  and the other panics with a division by zero.
\<close>

theorem SpotPrice_product_counterexample:
  "SpotPrice (mkPool 100 [asset ''q'' (10 ^ 19) 1, asset ''b'' 1 1]) ''q'' ''b'' = Inr (Dec 0) \<and>
   SpotPrice (mkPool 100 [asset ''q'' (10 ^ 19) 1, asset ''b'' 1 1]) ''b'' ''q''
     = Inr (ToDec (10 ^ 19)) \<and>
   DecMul (Dec 0) (ToDec (10 ^ 19)) = Dec 0 \<and>
   SpotPrice (mkPool 100 [asset ''q'' 1 1, asset ''b'' 1 (10 ^ 19)]) ''q'' ''b'' = Inr (Dec 0) \<and>
   SpotPrice (mkPool 100 [asset ''q'' 1 1, asset ''b'' 1 (10 ^ 19)]) ''b'' ''q''
     = Inl (Panic DivisionByZero)"
  by code_simp

section \<open>Joining a pool\<close>

text \<open>
  Claim C8. \<open>JoinPool\<close> with exactly one coin is \<open>singleAssetJoin\<close> of that coin. With any
  other number of coins it fails: with the error "TODO: Implement" when the number is
  the number of the pool's assets, and with the error that names the two accepted shapes
  when it is not.
\<close>

theorem JoinPool_shapes:
  "(\<forall>tokenIn. tokensIn = [tokenIn] \<longrightarrow>
      JoinPool pow p tokensIn swapFee = singleAssetJoin pow p tokenIn swapFee) \<and>
   (length tokensIn \<noteq> 1 \<and> length tokensIn = NumAssets p \<longrightarrow>
      JoinPool pow p tokensIn swapFee = (Inl ErrTodoImplement, p)) \<and>
   (length tokensIn \<noteq> 1 \<and> length tokensIn \<noteq> NumAssets p \<longrightarrow>
      JoinPool pow p tokensIn swapFee = (Inl ErrJoinShape, p))"
  by (auto simp: JoinPool_def split: list.splits)

text \<open>
  Witness for C8: two coins on a pool of three assets (scenario D of the specification),
  two coins on a pool of two assets, and one coin.
\<close>

theorem JoinPool_shapes_witness:
  "JoinPool powExact (mkPool 100 [asset ''a'' 10 1, asset ''b'' 10 1, asset ''c'' 10 1])
       [coin ''a'' 5, coin ''b'' 5] (Dec 0)
     = (Inl ErrJoinShape, mkPool 100 [asset ''a'' 10 1, asset ''b'' 10 1, asset ''c'' 10 1]) \<and>
   JoinPool powExact (mkPool 100 [asset ''a'' 10 1, asset ''b'' 10 1])
       [coin ''a'' 5, coin ''b'' 5] (Dec 0)
     = (Inl ErrTodoImplement, mkPool 100 [asset ''a'' 10 1, asset ''b'' 10 1]) \<and>
   JoinPool powExact (mkPool 100 [asset ''a'' 10 1, asset ''b'' 10 1]) [coin ''a'' 0] (Dec 0)
     = singleAssetJoin powExact (mkPool 100 [asset ''a'' 10 1, asset ''b'' 10 1])
         (coin ''a'' 0) (Dec 0)"
  using JoinPool_shapes [of "[coin ''a'' 5, coin ''b'' 5]" powExact
          "mkPool 100 [asset ''a'' 10 1, asset ''b'' 10 1, asset ''c'' 10 1]" "Dec 0"]
        JoinPool_shapes [of "[coin ''a'' 5, coin ''b'' 5]" powExact
          "mkPool 100 [asset ''a'' 10 1, asset ''b'' 10 1]" "Dec 0"]
        JoinPool_shapes [of "[coin ''a'' 0]" powExact
          "mkPool 100 [asset ''a'' 10 1, asset ''b'' 10 1]" "Dec 0"]
  by (simp add: NumAssets_def mkPool_def)

text \<open>
  Claim C9. The claim has a successful join return a changed pool: the balance of the
  deposited asset increased and the total shares increased. \<open>JoinPool\<close> never writes the
  pool: whatever it returns, the pool is the one it was called on.
\<close>

theorem JoinPool_pool_unchanged:
  "snd (JoinPool pow p tokensIn swapFee) = p"
  by (simp add: JoinPool_def singleAssetJoin_def split: list.splits sum.splits)

text \<open>A join that returns 50 shares for a deposit of 5: the balance stays 10 and the
  total shares stay 100.\<close>

lemma JoinPool_mints_without_deposit:
  "JoinPool powExact (mkPool 100 [asset ''a'' 10 1]) [coin ''a'' 5] (Dec 0)
     = (Inr 50, mkPool 100 [asset ''a'' 10 1])"
  by code_simp

text \<open>
  Claim C5, as amended. For a coin whose denomination is an asset of the pool,
  \<open>singleAssetJoin\<close> returns the formula of the specification, truncated toward zero,
  whenever the arithmetic does not panic, and leaves the pool as it is. It never fails
  with \<open>ErrInvalidMathApprox\<close>: a result that is zero or negative is returned as it is.
\<close>

theorem singleAssetJoin_computes:
  "(\<forall>a. getPoolAssetByDenom (PoolAssets p) (Denom tokenIn) = Some a \<longrightarrow>
      singleAssetJoin pow p tokenIn swapFee =
        (singleAssetJoin_formula pow (Amount (Token a)) (Weight a) (GetTotalWeight p)
           (GetTotalShares p) (Amount tokenIn) swapFee, p)) \<and>
   fst (singleAssetJoin pow p tokenIn swapFee) \<noteq> Inl ErrInvalidMathApprox"
proof (intro conjI allI impI)
  fix a assume "getPoolAssetByDenom (PoolAssets p) (Denom tokenIn) = Some a"
  then show "singleAssetJoin pow p tokenIn swapFee =
        (singleAssetJoin_formula pow (Amount (Token a)) (Weight a) (GetTotalWeight p)
           (GetTotalShares p) (Amount tokenIn) swapFee, p)"
    by (simp add: singleAssetJoin_def singleAssetJoin_formula_def GetPoolAsset_def
        calcPoolOutGivenSingleIn_def bindE_def Let_def DecMul_commute [of swapFee]
        split: sum.splits)
next
  show "fst (singleAssetJoin pow p tokenIn swapFee) \<noteq> Inl ErrInvalidMathApprox"
    by (auto simp: singleAssetJoin_def GetPoolAsset_def bindE_def DecQuo_def
        split: sum.splits option.splits if_splits dest: calc_not_error)
qed

text \<open>Witness for C5: a deposit of 5 into the one asset of a pool with balance 10 and
  100 shares returns 50 shares.\<close>

theorem singleAssetJoin_computes_witness:
  "getPoolAssetByDenom (PoolAssets (mkPool 100 [asset ''a'' 10 1])) (Denom (coin ''a'' 5))
     = Some (asset ''a'' 10 1) \<and>
   singleAssetJoin powExact (mkPool 100 [asset ''a'' 10 1]) (coin ''a'' 5) (Dec 0)
     = (Inr 50, mkPool 100 [asset ''a'' 10 1]) \<and>
   fst (singleAssetJoin powExact (mkPool 100 [asset ''a'' 10 1]) (coin ''a'' 5) (Dec 0))
     \<noteq> Inl ErrInvalidMathApprox"
proof -
  have found:
    "getPoolAssetByDenom (PoolAssets (mkPool 100 [asset ''a'' 10 1])) (Denom (coin ''a'' 5))
       = Some (asset ''a'' 10 1)"
    by code_simp
  have formula:
    "singleAssetJoin_formula powExact (Amount (Token (asset ''a'' 10 1)))
       (Weight (asset ''a'' 10 1)) (GetTotalWeight (mkPool 100 [asset ''a'' 10 1]))
       (GetTotalShares (mkPool 100 [asset ''a'' 10 1])) (Amount (coin ''a'' 5)) (Dec 0) = Inr 50"
    by code_simp
  from singleAssetJoin_computes [of "mkPool 100 [asset ''a'' 10 1]" "coin ''a'' 5" powExact "Dec 0"]
    found formula show ?thesis by simp
qed

text \<open>Counterexample to claim C5 as stated: a deposit of 0 truncates to 0 shares, and
  \<open>singleAssetJoin\<close> returns 0 with no error.\<close>

theorem singleAssetJoin_zero_counterexample:
  "singleAssetJoin powExact (mkPool 100 [asset ''a'' 10 1, asset ''b'' 10 1]) (coin ''a'' 0) (Dec 0)
     = (Inr 0, mkPool 100 [asset ''a'' 10 1, asset ''b'' 10 1])"
  by code_simp

section \<open>Leaving a pool\<close>

text \<open>
  Claim C2. \<open>ExitPool\<close> sets \<open>shareOutRatio = totalShares / refundedShares\<close> (line 191),
  the inverse of the share of the pool that is redeemed. For an exit of fewer than all
  shares the ratio is at least 1, so \<open>exitAmt = truncate(shareOutRatio * balance)\<close> is
  at least the balance, and the remainder \<open>balance - exitAmt\<close> that lines 201-203 write
  back is negative unless the asset is drained: \<open>sdk.NewCoin\<close> panics on it. Hence, for
  every pool, every positive number of shares and every exit fee between 0 and 1: an
  exit that returns has taken from every asset with a positive balance the whole of that
  balance.
\<close>

theorem ExitPool_inverted_ratio:
  assumes "ExitPool p exitingShares exitFee = (Inr exitedCoins, p')"
    and "0 < exitingShares" and "0 \<le> units exitFee" and "units exitFee \<le> 10 ^ 18"
    and "c \<in> set (GetTotalLpBalances p)" and "0 < Amount c"
  shows "\<exists>shareOutRatio.
           DecQuoInt (ToDec (GetTotalShares p))
             (if \<not> DecIsZero exitFee
              then TruncateInt (DecMulInt (DecSub OneDec exitFee) exitingShares)
              else exitingShares) = Inr shareOutRatio \<and>
           10 ^ 18 \<le> units shareOutRatio \<and>
           TruncateInt (DecMulInt shareOutRatio (Amount c)) = Amount c"
proof -
  define refundedShares where
    "refundedShares = (if \<not> DecIsZero exitFee
              then TruncateInt (DecMulInt (DecSub OneDec exitFee) exitingShares)
              else exitingShares)"
  from assms(1) have lt: "exitingShares < GetTotalShares p"
    by (auto simp: ExitPool_def Let_def split: if_splits)
  from assms(1) lt obtain shareOutRatio coins p'' where
    q: "DecQuoInt (ToDec (GetTotalShares p)) refundedShares = Inr shareOutRatio"
    and l: "exitLoop shareOutRatio (GetTotalLpBalances p) [] p = (Inr coins, p'')"
    by (auto simp: ExitPool_def Let_def refundedShares_def
        split: if_splits sum.splits prod.splits)
  have r0: "0 \<le> refundedShares" and r1: "refundedShares \<le> exitingShares"
    using refundedShares_bounds [OF assms(2,3,4)] assms(2)
    by (auto simp: refundedShares_def)
  from q have "refundedShares \<noteq> 0" by (auto simp: DecQuoInt_def split: if_splits)
  with r0 have rp: "0 < refundedShares" by simp
  from r1 lt have rt: "refundedShares < GetTotalShares p" by simp
  from exitAmt_covers_balance [OF rp _ _ q, of "Amount c"] rt assms(6)
  have ge: "Amount c \<le> TruncateInt (DecMulInt shareOutRatio (Amount c))" by simp
  with assms(6) have "0 < TruncateInt (DecMulInt shareOutRatio (Amount c))" by simp
  from exitLoop_returns_within [OF l assms(5) this] ge
  have eq: "TruncateInt (DecMulInt shareOutRatio (Amount c)) = Amount c" by simp
  have "(refundedShares * 10 ^ 18) div refundedShares
               \<le> (GetTotalShares p * 10 ^ 18) div refundedShares"
    using rp rt by (intro zdiv_mono1) auto
  moreover have "units shareOutRatio = (GetTotalShares p * 10 ^ 18) div refundedShares"
    using q rp rt
    by (auto simp: DecQuoInt_def ToDec_def bigQuo_def precisionReuse_def abs_mult
        split: if_splits)
  ultimately have one: "10 ^ 18 \<le> units shareOutRatio"
    using rp by simp
  from q eq one show ?thesis
    unfolding refundedShares_def by blast
qed

text \<open>
  Witness for C2: an exit of the pool of 100 shares and balances 10 and 10 that
  returns: 99 shares, with the ratio \<open>100 / 99 = 1.0101...\<close> and the amount 10 of a
  balance of 10. It returns the whole pool for 99 of its 100 shares.
\<close>

theorem ExitPool_inverted_ratio_witness:
  "ExitPool pool2 99 (Dec 0)
     = (Inr [coin ''uatom'' 10, coin ''uosmo'' 10],
        mkPool 1 [asset ''uatom'' 0 1, asset ''uosmo'' 0 1]) \<and>
   (0::int) < 99 \<and> 0 \<le> units (Dec 0) \<and> units (Dec 0) \<le> 10 ^ 18 \<and>
   coin ''uatom'' 10 \<in> set (GetTotalLpBalances pool2) \<and> 0 < Amount (coin ''uatom'' 10) \<and>
   DecQuoInt (ToDec (GetTotalShares pool2)) 99 = Inr (Dec 1010101010101010101) \<and>
   TruncateInt (DecMulInt (Dec 1010101010101010101) (Amount (coin ''uatom'' 10)))
     = Amount (coin ''uatom'' 10)"
proof -
  have e: "ExitPool pool2 99 (Dec 0)
     = (Inr [coin ''uatom'' 10, coin ''uosmo'' 10],
        mkPool 1 [asset ''uatom'' 0 1, asset ''uosmo'' 0 1])" by code_simp
  have h1: "(0::int) < 99" and h2: "0 \<le> units (Dec 0)" and h3: "units (Dec 0) \<le> 10 ^ 18"
    by simp_all
  have h4: "coin ''uatom'' 10 \<in> set (GetTotalLpBalances pool2)" by code_simp
  have h5: "0 < Amount (coin ''uatom'' 10)" by code_simp
  have q: "DecQuoInt (ToDec (GetTotalShares pool2)) 99 = Inr (Dec 1010101010101010101)"
    by code_simp
  have z: "DecIsZero (Dec 0)" by code_simp
  from ExitPool_inverted_ratio [OF e h1 h2 h3 h4 h5] q z
  have "TruncateInt (DecMulInt (Dec 1010101010101010101) (Amount (coin ''uatom'' 10)))
          = Amount (coin ''uatom'' 10)"
    by auto
  with e h1 h2 h3 h4 h5 q show ?thesis by (intro conjI)
qed

text \<open>
  The exits that do not drain the pool panic. On the pool of 100 shares and balances 10
  and 10, with no exit fee: the exit of 50 shares has the ratio 2 and the amount 20 of a
  balance of 10; the exit of 1 share has the ratio 100. On the pool of scenario C, with
  balances 1000 and 1000, the exit of 99 of 100 shares has the amount 1010.
\<close>

lemma ExitPool_panics:
  "DecQuoInt (ToDec 100) 50 = Inr (ToDec 2) \<and>
   TruncateInt (DecMulInt (ToDec 2) 10) = 20 \<and>
   ExitPool pool2 50 (Dec 0) = (Inl (Panic NegativeCoinAmount), pool2) \<and>
   ExitPool pool2 1 (Dec 0) = (Inl (Panic NegativeCoinAmount), pool2) \<and>
   TruncateInt (DecMulInt (Dec 1010101010101010101) 1000) = 1010 \<and>
   ExitPool pool1000 99 (Dec 0) = (Inl (Panic NegativeCoinAmount), pool1000)"
  by code_simp

section \<open>The balances stay non-negative\<close>

text \<open>
  Claim C1. From a pool whose balances are all at least 0: the pool that \<open>ExitPool\<close>
  leaves has balances at least 0, whatever the call returns, and so in particular after
  every successful exit with \<open>0 < exitingShares < totalShares\<close>; \<open>JoinPool\<close> leaves the
  pool as it is; a successful \<open>SwapExactAmountOut\<close> writes that one pool, with balances at
  least 0, for every calculator. \<open>SwapExactAmountIn\<close> has no check of the amount out
  against the balance it is paid from (lines 45-54); a successful call writes the pool
  with balances at least 0 with the calculator of the specification's three steps, for
  every power function that returns no negative number, and, for every calculator, when
  the account of the pool holds no more of the asset paid out than the pool records: the
  bank then refuses to pay out more than the balance.
\<close>

theorem operations_keep_balances_nonnegative:
  assumes "balancesNonNegative p"
  shows "balancesNonNegative (snd (ExitPool p exitingShares exitFee)) \<and>
         (\<forall>coins p'. 0 < exitingShares \<and> exitingShares < GetTotalShares p \<and>
              ExitPool p exitingShares exitFee = (Inr coins, p') \<longrightarrow> balancesNonNegative p') \<and>
         balancesNonNegative (snd (JoinPool pow p tokensIn swapFee)) \<and>
         (\<forall>n k'. pools k poolId = Some p \<and>
              SwapExactAmountOut CalcInGivenOut storePool k now sender poolId tokenInDenom
                tokenInMaxAmount tokenOut = (Inr n, k') \<longrightarrow>
              (\<exists>p'. pools k' = (pools k)(Id p \<mapsto> p') \<and> balancesNonNegative p')) \<and>
         (\<forall>n k'. pools k poolId = Some p \<and>
              (\<forall>b e v. pow b e = Some v \<longrightarrow> 0 \<le> units v) \<and>
              SwapExactAmountIn (specCalcOutGivenIn pow) storePool k now sender poolId tokenIn
                tokenOutDenom tokenOutMinAmount = (Inr n, k') \<longrightarrow>
              (\<exists>p'. pools k' = (pools k)(Id p \<mapsto> p') \<and> balancesNonNegative p')) \<and>
         (\<forall>n k' b. pools k poolId = Some p \<and>
              getPoolAssetByDenom (PoolAssets p) tokenOutDenom = Some b \<and>
              bank k (Address p, tokenOutDenom) \<le> Amount (Token b) \<and>
              SwapExactAmountIn CalcOutGivenIn storePool k now sender poolId tokenIn
                tokenOutDenom tokenOutMinAmount = (Inr n, k') \<longrightarrow>
              (\<exists>p'. pools k' = (pools k)(Id p \<mapsto> p') \<and> balancesNonNegative p'))"
proof -
  have e: "balancesNonNegative (snd (ExitPool p exitingShares exitFee))"
    using assms by (rule ExitPool_nonneg)
  then have e': "\<forall>coins p'. 0 < exitingShares \<and> exitingShares < GetTotalShares p \<and>
              ExitPool p exitingShares exitFee = (Inr coins, p') \<longrightarrow> balancesNonNegative p'"
    by auto
  have j: "balancesNonNegative (snd (JoinPool pow p tokensIn swapFee))"
    using assms by (simp add: JoinPool_def singleAssetJoin_def split: list.splits sum.splits)
  have out: "\<exists>p'. pools k' = (pools k)(Id p \<mapsto> p') \<and> balancesNonNegative p'"
    if "pools k poolId = Some p"
      and "SwapExactAmountOut CalcInGivenOut storePool k now sender poolId tokenInDenom
             tokenInMaxAmount tokenOut = (Inr n, k')" for n k'
  proof -
    from SwapExactAmountOut_success [OF that(2,1)] obtain a and b :: PoolAsset and k1 b2 where
      a: "getPoolAssetByDenom (PoolAssets p) tokenInDenom = Some a"
      and n: "0 < n" and lt: "Amount tokenOut < Amount (Token b)"
      and w: "storePool k (p\<lparr>PoolAssets :=
                      setBalance
                        (setBalance (PoolAssets p) tokenInDenom (Amount (Token a) + n))
                        (Denom tokenOut) (Amount (Token b) - Amount tokenOut)\<rparr>) = Some k1"
      and k': "k' = k1\<lparr>bank := b2\<rparr>"
      by blast
    from w k' have s: "pools k' = (pools k)(Id p \<mapsto>
                 p\<lparr>PoolAssets :=
                      setBalance
                        (setBalance (PoolAssets p) tokenInDenom (Amount (Token a) + n))
                        (Denom tokenOut) (Amount (Token b) - Amount tokenOut)\<rparr>)"
      by (auto simp: storePool_def)
    from found_nonneg [OF assms a] n have "0 \<le> Amount (Token a) + n" by simp
    moreover from lt have "0 \<le> Amount (Token b) - Amount tokenOut" by simp
    ultimately show ?thesis using s swapped_nonneg [OF assms] by blast
  qed
  have inn: "\<exists>p'. pools k' = (pools k)(Id p \<mapsto> p') \<and> balancesNonNegative p'"
    if "pools k poolId = Some p"
      and "SwapExactAmountIn calc storePool k now sender poolId tokenIn
             tokenOutDenom tokenOutMinAmount = (Inr n, k')"
      and covered: "\<And>(a :: PoolAsset) (b :: PoolAsset) d b1 b2.
             getPoolAssetByDenom (PoolAssets p) (Denom tokenIn) = Some a \<Longrightarrow>
             getPoolAssetByDenom (PoolAssets p) tokenOutDenom = Some b \<Longrightarrow>
             calc p a b (Amount tokenIn) (GetPoolSwapFee p) = Some d \<Longrightarrow>
             Denom tokenIn \<noteq> tokenOutDenom \<Longrightarrow>
             SendCoins (bank k) sender (Address p) [tokenIn] = Inr b1 \<Longrightarrow>
             SendCoins b1 (Address p) sender [\<lparr>Denom = tokenOutDenom, Amount = n\<rparr>] = Inr b2 \<Longrightarrow>
             n = TruncateInt d \<Longrightarrow> n \<le> Amount (Token b)"
    for calc n k'
  proof -
    from SwapExactAmountIn_success [OF that(2,1)] obtain a and b :: PoolAsset and d k1 b1 b2 where
      a: "getPoolAssetByDenom (PoolAssets p) (Denom tokenIn) = Some a"
      and b: "getPoolAssetByDenom (PoolAssets p) tokenOutDenom = Some b"
      and d: "calc p a b (Amount tokenIn) (GetPoolSwapFee p) = Some d" "n = TruncateInt d"
      and ne: "Denom tokenIn \<noteq> tokenOutDenom"
      and w: "storePool k (p\<lparr>PoolAssets :=
                      setBalance
                        (setBalance (PoolAssets p) (Denom tokenIn)
                           (Amount (Token a) + Amount tokenIn))
                        tokenOutDenom (Amount (Token b) - n)\<rparr>) = Some k1"
      and s1: "SendCoins (bank k1) sender (Address p) [tokenIn] = Inr b1"
      and s2: "SendCoins b1 (Address p) sender [\<lparr>Denom = tokenOutDenom, Amount = n\<rparr>] = Inr b2"
      and k': "k' = k1\<lparr>bank := b2\<rparr>"
      by blast
    from w have bk: "bank k1 = bank k" by (auto simp: storePool_def)
    from w k' have s: "pools k' = (pools k)(Id p \<mapsto>
                 p\<lparr>PoolAssets :=
                      setBalance
                        (setBalance (PoolAssets p) (Denom tokenIn)
                           (Amount (Token a) + Amount tokenIn))
                        tokenOutDenom (Amount (Token b) - n)\<rparr>)"
      by (auto simp: storePool_def)
    from SendCoins_positive [OF s1] found_nonneg [OF assms a]
    have "0 \<le> Amount (Token a) + Amount tokenIn" by simp
    moreover from covered [OF a b d(1) ne s1 [unfolded bk] s2 d(2)]
    have "0 \<le> Amount (Token b) - n" by simp
    ultimately show ?thesis using s swapped_nonneg [OF assms] by blast
  qed
  have spec: "\<exists>p'. pools k' = (pools k)(Id p \<mapsto> p') \<and> balancesNonNegative p'"
    if "pools k poolId = Some p"
      and nonneg: "\<forall>b e v. pow b e = Some v \<longrightarrow> 0 \<le> units v"
      and "SwapExactAmountIn (specCalcOutGivenIn pow) storePool k now sender poolId tokenIn
             tokenOutDenom tokenOutMinAmount = (Inr n, k')" for n k'
  proof (rule inn [OF that(1,3)])
    fix a b :: PoolAsset and d
    assume b: "getPoolAssetByDenom (PoolAssets p) tokenOutDenom = Some b"
      and d: "specCalcOutGivenIn pow p a b (Amount tokenIn) (GetPoolSwapFee p) = Some d"
      and n: "n = TruncateInt d"
    from d have "calcOutGivenIn_formula pow (Amount (Token a)) (Weight a)
                   (Amount (Token b)) (Weight b) (Amount tokenIn) (GetPoolSwapFee p) = Inr d"
      by (simp add: specCalcOutGivenIn_def split: sum.splits)
    from calcOutGivenIn_formula_le [OF this found_nonneg [OF assms b] nonneg] n
    show "n \<le> Amount (Token b)" by simp
  qed
  have ledger: "\<exists>p'. pools k' = (pools k)(Id p \<mapsto> p') \<and> balancesNonNegative p'"
    if "pools k poolId = Some p"
      and b: "getPoolAssetByDenom (PoolAssets p) tokenOutDenom = Some b"
      and held: "bank k (Address p, tokenOutDenom) \<le> Amount (Token b)"
      and "SwapExactAmountIn CalcOutGivenIn storePool k now sender poolId tokenIn
             tokenOutDenom tokenOutMinAmount = (Inr n, k')" for n k' b
  proof (rule inn [OF that(1,4)])
    fix b' :: PoolAsset and b1 b2
    assume b': "getPoolAssetByDenom (PoolAssets p) tokenOutDenom = Some b'"
      and ne: "Denom tokenIn \<noteq> tokenOutDenom"
      and s1: "SendCoins (bank k) sender (Address p) [tokenIn] = Inr b1"
      and s2: "SendCoins b1 (Address p) sender [\<lparr>Denom = tokenOutDenom, Amount = n\<rparr>] = Inr b2"
    from b b' have eq: "b' = b" by simp
    from SendCoins_covered [OF s2] have "n \<le> b1 (Address p, tokenOutDenom)" by simp
    also from SendCoins_other [OF s1, of tokenOutDenom "Address p"] ne
    have "b1 (Address p, tokenOutDenom) = bank k (Address p, tokenOutDenom)" by simp
    finally show "n \<le> Amount (Token b')" using held eq by simp
  qed
  from e e' j out spec ledger show ?thesis by blast
qed

text \<open>
  Witness for C1, on the pool of 100 shares and balances 10 and 10: the exit of 99
  shares, which returns; a swap for exactly 3 of \<open>uosmo\<close> at a quoted price of 7 of
  \<open>uatom\<close>; and a swap of 10 of \<open>uatom\<close> for 5 of \<open>uosmo\<close>, with the calculator of the
  specification, from an account of the pool that holds the 10 of \<open>uosmo\<close> the pool
  records.
\<close>

theorem operations_keep_balances_nonnegative_witness:
  "balancesNonNegative pool2 \<and>
   (0::int) < 99 \<and> 99 < GetTotalShares pool2 \<and>
   ExitPool pool2 99 (Dec 0)
     = (Inr [coin ''uatom'' 10, coin ''uosmo'' 10],
        mkPool 1 [asset ''uatom'' 0 1, asset ''uosmo'' 0 1]) \<and>
   balancesNonNegative (mkPool 1 [asset ''uatom'' 0 1, asset ''uosmo'' 0 1]) \<and>
   pools keeper0 1 = Some pool2 \<and>
   getPoolAssetByDenom (PoolAssets pool2) ''uosmo'' = Some (asset ''uosmo'' 10 1) \<and>
   bank keeper0 (Address pool2, ''uosmo'') \<le> Amount (Token (asset ''uosmo'' 10 1)) \<and>
   fst (SwapExactAmountOut quoteSeven storePool keeper0 0 ''alice'' 1 ''uatom'' 100
          (coin ''uosmo'' 3)) = Inr 7 \<and>
   pools (snd (SwapExactAmountOut quoteSeven storePool keeper0 0 ''alice'' 1 ''uatom'' 100
                 (coin ''uosmo'' 3))) 1
     = Some (mkPool 100 [asset ''uatom'' 17 1, asset ''uosmo'' 7 1]) \<and>
   fst (SwapExactAmountIn (specCalcOutGivenIn powExact) storePool keeper0 0 ''alice'' 1
          (coin ''uatom'' 10) ''uosmo'' 1) = Inr 5 \<and>
   pools (snd (SwapExactAmountIn (specCalcOutGivenIn powExact) storePool keeper0 0 ''alice'' 1
                 (coin ''uatom'' 10) ''uosmo'' 1)) 1
     = Some (mkPool 100 [asset ''uatom'' 20 1, asset ''uosmo'' 5 1]) \<and>
   (\<exists>p'. pools (snd (SwapExactAmountIn (specCalcOutGivenIn powExact) storePool keeper0 0
                        ''alice'' 1 (coin ''uatom'' 10) ''uosmo'' 1))
            = (pools keeper0)(Id pool2 \<mapsto> p') \<and> balancesNonNegative p') \<and>
   fst (SwapExactAmountIn quoteSeven storePool keeper0 0 ''alice'' 1 (coin ''uatom'' 10)
          ''uosmo'' 1) = Inr 7 \<and>
   (\<exists>p'. pools (snd (SwapExactAmountIn quoteSeven storePool keeper0 0 ''alice'' 1
                        (coin ''uatom'' 10) ''uosmo'' 1))
            = (pools keeper0)(Id pool2 \<mapsto> p') \<and> balancesNonNegative p') \<and>
   balancesNonNegative (mkPool 100 [asset ''uatom'' 17 1, asset ''uosmo'' 7 1]) \<and>
   balancesNonNegative (mkPool 100 [asset ''uatom'' 20 1, asset ''uosmo'' 5 1])"
proof -
  have h: "balancesNonNegative pool2" by code_simp
  have r: "(0::int) < 99 \<and> 99 < GetTotalShares pool2" by code_simp
  have e: "ExitPool pool2 99 (Dec 0)
     = (Inr [coin ''uatom'' 10, coin ''uosmo'' 10],
        mkPool 1 [asset ''uatom'' 0 1, asset ''uosmo'' 0 1])" by code_simp
  have k: "pools keeper0 1 = Some pool2" by (simp add: keeper0_def)
  have b: "getPoolAssetByDenom (PoolAssets pool2) ''uosmo'' = Some (asset ''uosmo'' 10 1)"
    by code_simp
  have held: "bank keeper0 (Address pool2, ''uosmo'') \<le> Amount (Token (asset ''uosmo'' 10 1))"
    by code_simp
  have o1: "fst (SwapExactAmountOut quoteSeven storePool keeper0 0 ''alice'' 1 ''uatom'' 100
                   (coin ''uosmo'' 3)) = Inr 7"
    by code_simp
  have o2: "pools (snd (SwapExactAmountOut quoteSeven storePool keeper0 0 ''alice'' 1 ''uatom'' 100
                          (coin ''uosmo'' 3))) 1
     = Some (mkPool 100 [asset ''uatom'' 17 1, asset ''uosmo'' 7 1])"
    by code_simp
  have i1: "fst (SwapExactAmountIn (specCalcOutGivenIn powExact) storePool keeper0 0 ''alice'' 1
                   (coin ''uatom'' 10) ''uosmo'' 1) = Inr 5"
    by code_simp
  have i2: "pools (snd (SwapExactAmountIn (specCalcOutGivenIn powExact) storePool keeper0 0
                          ''alice'' 1 (coin ''uatom'' 10) ''uosmo'' 1)) 1
     = Some (mkPool 100 [asset ''uatom'' 20 1, asset ''uosmo'' 5 1])"
    by code_simp
  have i3: "SwapExactAmountIn (specCalcOutGivenIn powExact) storePool keeper0 0 ''alice'' 1
              (coin ''uatom'' 10) ''uosmo'' 1
            = (Inr 5, snd (SwapExactAmountIn (specCalcOutGivenIn powExact) storePool keeper0 0
                             ''alice'' 1 (coin ''uatom'' 10) ''uosmo'' 1))"
    using i1 by (metis prod.collapse)
  have pw: "\<forall>b e v. powExact b e = Some v \<longrightarrow> 0 \<le> units v"
    using powExact_nonneg by blast
  note t1 = operations_keep_balances_nonnegative [OF h, of 99 "Dec 0" powExact "[]" "Dec 0"
      keeper0 1 quoteSeven 0 "''alice''" "''uatom''" 100 "coin ''uosmo'' 3"
      "coin ''uatom'' 10" "''uosmo''" 1 quoteSeven]
  have n1: "balancesNonNegative (mkPool 1 [asset ''uatom'' 0 1, asset ''uosmo'' 0 1])"
    by (rule conjunct1 [OF conjunct2 [OF t1], rule_format]) (use r e in blast)
  have n4: "\<exists>p'. pools (snd (SwapExactAmountIn (specCalcOutGivenIn powExact) storePool keeper0 0
                        ''alice'' 1 (coin ''uatom'' 10) ''uosmo'' 1))
            = (pools keeper0)(Id pool2 \<mapsto> p') \<and> balancesNonNegative p'"
    by (rule conjunct1 [OF conjunct2 [OF conjunct2 [OF conjunct2 [OF conjunct2 [OF t1]]]],
          rule_format])
       (use k pw i3 in blast)
  have q1: "fst (SwapExactAmountIn quoteSeven storePool keeper0 0 ''alice'' 1 (coin ''uatom'' 10)
                   ''uosmo'' 1) = Inr 7"
    by code_simp
  then have q3: "SwapExactAmountIn quoteSeven storePool keeper0 0 ''alice'' 1 (coin ''uatom'' 10)
                   ''uosmo'' 1
            = (Inr 7, snd (SwapExactAmountIn quoteSeven storePool keeper0 0 ''alice'' 1
                             (coin ''uatom'' 10) ''uosmo'' 1))"
    by (metis prod.collapse)
  have n5: "\<exists>p'. pools (snd (SwapExactAmountIn quoteSeven storePool keeper0 0 ''alice'' 1
                        (coin ''uatom'' 10) ''uosmo'' 1))
            = (pools keeper0)(Id pool2 \<mapsto> p') \<and> balancesNonNegative p'"
    by (rule conjunct2 [OF conjunct2 [OF conjunct2 [OF conjunct2 [OF conjunct2 [OF t1]]]],
          rule_format])
       (use k b held q3 in blast)
  have n2: "balancesNonNegative (mkPool 100 [asset ''uatom'' 17 1, asset ''uosmo'' 7 1])"
    by code_simp
  have n3: "balancesNonNegative (mkPool 100 [asset ''uatom'' 20 1, asset ''uosmo'' 5 1])"
    by code_simp
  from h r e k b held o1 o2 i1 i2 n1 n2 n3 n4 q1 n5 show ?thesis by blast
qed

section \<open>Failing swaps\<close>

text \<open>
  Claim C6. A swap that fails with any error but the bank's returns it with the keeper's
  state as it was: every check and computation is made before the pool is written, and
  an error of \<open>SetPool\<close> is returned with nothing written. A swap that returns has
  written the pool and made both transfers. \<open>updatePoolForSwap\<close> returns the error of
  \<open>SetPool\<close> and of either transfer (lines 140-157); the transfers come after \<open>SetPool\<close>,
  and the error they return is what the enclosing transaction of the host acts on: under
  it, a swap that fails, whatever the failure, leaves the state exactly as before the
  operation, the persisted pool included.
\<close>

theorem swap_failures_and_ledger:
  "(\<forall>e k'. SwapExactAmountIn CalcOutGivenIn SetPool k now sender poolId tokenIn tokenOutDenom
               tokenOutMinAmount = (Inl e, k') \<and>
             e \<noteq> ErrInvalidCoins \<and> e \<noteq> ErrInsufficientFunds \<longrightarrow> k' = k) \<and>
   (\<forall>e k'. SwapExactAmountOut CalcInGivenOut SetPool k now sender poolId tokenInDenom
               tokenInMaxAmount tokenOut' = (Inl e, k') \<and>
             e \<noteq> ErrInvalidCoins \<and> e \<noteq> ErrInsufficientFunds \<longrightarrow> k' = k) \<and>
   (\<forall>n k'. SwapExactAmountIn CalcOutGivenIn SetPool k now sender poolId tokenIn tokenOutDenom
               tokenOutMinAmount = (Inr n, k') \<longrightarrow>
        (\<exists>p p' k1 b1 b2. pools k poolId = Some p \<and> SetPool k p' = Some k1 \<and>
           SendCoins (bank k1) sender (Address p) [tokenIn] = Inr b1 \<and>
           SendCoins b1 (Address p) sender [\<lparr>Denom = tokenOutDenom, Amount = n\<rparr>] = Inr b2 \<and>
           k' = k1\<lparr>bank := b2\<rparr>)) \<and>
   (\<forall>n k'. SwapExactAmountOut CalcInGivenOut SetPool k now sender poolId tokenInDenom
               tokenInMaxAmount tokenOut' = (Inr n, k') \<longrightarrow>
        (\<exists>p p' k1 b1 b2. pools k poolId = Some p \<and> SetPool k p' = Some k1 \<and>
           SendCoins (bank k1) sender (Address p) [\<lparr>Denom = tokenInDenom, Amount = n\<rparr>] = Inr b1 \<and>
           SendCoins b1 (Address p) sender [tokenOut'] = Inr b2 \<and>
           k' = k1\<lparr>bank := b2\<rparr>)) \<and>
   (\<forall>pool1 pool2.
       AddPoolAssetBalance pool coinIn = Inr pool1 \<and>
       SubPoolAssetBalance pool1 coinOut = Inr pool2 \<and> SetPool k pool2 = None \<longrightarrow>
       updatePoolForSwap SetPool k pool sender coinIn coinOut = (Inl ErrSetPool, k)) \<and>
   (\<forall>pool1 pool2 k1 e.
       AddPoolAssetBalance pool coinIn = Inr pool1 \<and>
       SubPoolAssetBalance pool1 coinOut = Inr pool2 \<and> SetPool k pool2 = Some k1 \<and>
       SendCoins (bank k1) sender (Address pool2) [coinIn] = Inl e \<longrightarrow>
       updatePoolForSwap SetPool k pool sender coinIn coinOut = (Inl e, k1)) \<and>
   (\<forall>pool1 pool2 k1 b1 e.
       AddPoolAssetBalance pool coinIn = Inr pool1 \<and>
       SubPoolAssetBalance pool1 coinOut = Inr pool2 \<and> SetPool k pool2 = Some k1 \<and>
       SendCoins (bank k1) sender (Address pool2) [coinIn] = Inr b1 \<and>
       SendCoins b1 (Address pool2) sender [coinOut] = Inl e \<longrightarrow>
       updatePoolForSwap SetPool k pool sender coinIn coinOut = (Inl e, k1\<lparr>bank := b1\<rparr>)) \<and>
   (\<forall>e. fst (SwapExactAmountIn CalcOutGivenIn SetPool k now sender poolId tokenIn tokenOutDenom
                tokenOutMinAmount) = Inl e \<longrightarrow>
        atomically (\<lambda>s. SwapExactAmountIn CalcOutGivenIn SetPool s now sender poolId tokenIn
                           tokenOutDenom tokenOutMinAmount) k = (Inl e, k)) \<and>
   (\<forall>e. fst (SwapExactAmountOut CalcInGivenOut SetPool k now sender poolId tokenInDenom
                tokenInMaxAmount tokenOut') = Inl e \<longrightarrow>
        atomically (\<lambda>s. SwapExactAmountOut CalcInGivenOut SetPool s now sender poolId tokenInDenom
                           tokenInMaxAmount tokenOut') k = (Inl e, k))"
proof -
  have c1: "\<forall>e k'. SwapExactAmountIn CalcOutGivenIn SetPool k now sender poolId tokenIn
               tokenOutDenom tokenOutMinAmount = (Inl e, k') \<and>
             e \<noteq> ErrInvalidCoins \<and> e \<noteq> ErrInsufficientFunds \<longrightarrow> k' = k"
    by (auto simp: SwapExactAmountIn_def Let_def
        split: if_splits sum.splits option.splits prod.splits dest: updatePoolForSwap_failure)
  have c2: "\<forall>e k'. SwapExactAmountOut CalcInGivenOut SetPool k now sender poolId tokenInDenom
               tokenInMaxAmount tokenOut' = (Inl e, k') \<and>
             e \<noteq> ErrInvalidCoins \<and> e \<noteq> ErrInsufficientFunds \<longrightarrow> k' = k"
    by (auto simp: SwapExactAmountOut_def Let_def
        split: if_splits sum.splits option.splits prod.splits dest: updatePoolForSwap_failure)
  have c3: "\<forall>n k'. SwapExactAmountIn CalcOutGivenIn SetPool k now sender poolId tokenIn
               tokenOutDenom tokenOutMinAmount = (Inr n, k') \<longrightarrow>
        (\<exists>p p' k1 b1 b2. pools k poolId = Some p \<and> SetPool k p' = Some k1 \<and>
           SendCoins (bank k1) sender (Address p) [tokenIn] = Inr b1 \<and>
           SendCoins b1 (Address p) sender [\<lparr>Denom = tokenOutDenom, Amount = n\<rparr>] = Inr b2 \<and>
           k' = k1\<lparr>bank := b2\<rparr>)"
  proof (intro allI impI)
    fix n k'
    assume r: "SwapExactAmountIn CalcOutGivenIn SetPool k now sender poolId tokenIn
                 tokenOutDenom tokenOutMinAmount = (Inr n, k')"
    from SwapExactAmountIn_pool [OF r] obtain p where p: "pools k poolId = Some p" by blast
    from SwapExactAmountIn_success [OF r p] p
    show "\<exists>p p' k1 b1 b2. pools k poolId = Some p \<and> SetPool k p' = Some k1 \<and>
           SendCoins (bank k1) sender (Address p) [tokenIn] = Inr b1 \<and>
           SendCoins b1 (Address p) sender [\<lparr>Denom = tokenOutDenom, Amount = n\<rparr>] = Inr b2 \<and>
           k' = k1\<lparr>bank := b2\<rparr>"
      by blast
  qed
  have c4: "\<forall>n k'. SwapExactAmountOut CalcInGivenOut SetPool k now sender poolId tokenInDenom
               tokenInMaxAmount tokenOut' = (Inr n, k') \<longrightarrow>
        (\<exists>p p' k1 b1 b2. pools k poolId = Some p \<and> SetPool k p' = Some k1 \<and>
           SendCoins (bank k1) sender (Address p) [\<lparr>Denom = tokenInDenom, Amount = n\<rparr>] = Inr b1 \<and>
           SendCoins b1 (Address p) sender [tokenOut'] = Inr b2 \<and>
           k' = k1\<lparr>bank := b2\<rparr>)"
  proof (intro allI impI)
    fix n k'
    assume r: "SwapExactAmountOut CalcInGivenOut SetPool k now sender poolId tokenInDenom
                 tokenInMaxAmount tokenOut' = (Inr n, k')"
    from SwapExactAmountOut_pool [OF r] obtain p where p: "pools k poolId = Some p" by blast
    from SwapExactAmountOut_success [OF r p] p
    show "\<exists>p p' k1 b1 b2. pools k poolId = Some p \<and> SetPool k p' = Some k1 \<and>
           SendCoins (bank k1) sender (Address p) [\<lparr>Denom = tokenInDenom, Amount = n\<rparr>] = Inr b1 \<and>
           SendCoins b1 (Address p) sender [tokenOut'] = Inr b2 \<and>
           k' = k1\<lparr>bank := b2\<rparr>"
      by blast
  qed
  have c5: "\<forall>pool1 pool2.
       AddPoolAssetBalance pool coinIn = Inr pool1 \<and>
       SubPoolAssetBalance pool1 coinOut = Inr pool2 \<and> SetPool k pool2 = None \<longrightarrow>
       updatePoolForSwap SetPool k pool sender coinIn coinOut = (Inl ErrSetPool, k)"
    by (auto simp: updatePoolForSwap_def)
  have c6: "\<forall>pool1 pool2 k1 e.
       AddPoolAssetBalance pool coinIn = Inr pool1 \<and>
       SubPoolAssetBalance pool1 coinOut = Inr pool2 \<and> SetPool k pool2 = Some k1 \<and>
       SendCoins (bank k1) sender (Address pool2) [coinIn] = Inl e \<longrightarrow>
       updatePoolForSwap SetPool k pool sender coinIn coinOut = (Inl e, k1)"
    by (auto simp: updatePoolForSwap_def)
  have c7: "\<forall>pool1 pool2 k1 b1 e.
       AddPoolAssetBalance pool coinIn = Inr pool1 \<and>
       SubPoolAssetBalance pool1 coinOut = Inr pool2 \<and> SetPool k pool2 = Some k1 \<and>
       SendCoins (bank k1) sender (Address pool2) [coinIn] = Inr b1 \<and>
       SendCoins b1 (Address pool2) sender [coinOut] = Inl e \<longrightarrow>
       updatePoolForSwap SetPool k pool sender coinIn coinOut = (Inl e, k1\<lparr>bank := b1\<rparr>)"
    by (auto simp: updatePoolForSwap_def)
  have c8: "\<forall>e. fst (SwapExactAmountIn CalcOutGivenIn SetPool k now sender poolId tokenIn
                tokenOutDenom tokenOutMinAmount) = Inl e \<longrightarrow>
        atomically (\<lambda>s. SwapExactAmountIn CalcOutGivenIn SetPool s now sender poolId tokenIn
                           tokenOutDenom tokenOutMinAmount) k = (Inl e, k)"
    by (auto simp: atomically_def split: prod.splits sum.splits)
  have c9: "\<forall>e. fst (SwapExactAmountOut CalcInGivenOut SetPool k now sender poolId tokenInDenom
                tokenInMaxAmount tokenOut') = Inl e \<longrightarrow>
        atomically (\<lambda>s. SwapExactAmountOut CalcInGivenOut SetPool s now sender poolId tokenInDenom
                           tokenInMaxAmount tokenOut') k = (Inl e, k)"
    by (auto simp: atomically_def split: prod.splits sum.splits)
  from c1 c2 c3 c4 c5 c6 c7 c8 c9 show ?thesis by (intro conjI)
qed

text \<open>
  Witness for C6: a swap of \<open>uatom\<close> for \<open>uatom\<close> and a swap for the whole balance fail
  with the state unchanged, and so does a swap whose \<open>SetPool\<close> returns an error; the
  swap of 10 of \<open>uatom\<close> for 5 of \<open>uosmo\<close> returns, with the pool of balances 20 and 5
  written and \<open>alice\<close> holding 90 and 5. The same swap from \<open>alice\<close> who holds nothing
  fails in the first transfer and \<open>updatePoolForSwap\<close> returns the bank's error with the
  pool written; from a pool account that holds no \<open>uosmo\<close> it fails in the second
  transfer, with the pool written and the first transfer made. Under the transaction of
  the host both leave the state of before the swap, the pool of balances 10 and 10
  included.
\<close>

theorem swap_failures_and_ledger_witness:
  "SwapExactAmountIn quoteSeven storePool keeper0 0 ''alice'' 1 (coin ''uatom'' 10) ''uatom'' 1
     = (Inl ErrSameDenom, keeper0) \<and>
   SwapExactAmountOut quoteSeven storePool keeper0 0 ''alice'' 1 ''uatom'' 100 (coin ''uosmo'' 10)
     = (Inl ErrTooManyTokensOut, keeper0) \<and>
   SwapExactAmountIn (specCalcOutGivenIn powExact) (\<lambda>k pool. None) keeper0 0 ''alice'' 1
       (coin ''uatom'' 10) ''uosmo'' 1 = (Inl ErrSetPool, keeper0) \<and>
   fst (SwapExactAmountIn (specCalcOutGivenIn powExact) storePool keeper0 0 ''alice'' 1
          (coin ''uatom'' 10) ''uosmo'' 1) = Inr 5 \<and>
   pools (snd (SwapExactAmountIn (specCalcOutGivenIn powExact) storePool keeper0 0 ''alice'' 1
                 (coin ''uatom'' 10) ''uosmo'' 1)) 1
     = Some (mkPool 100 [asset ''uatom'' 20 1, asset ''uosmo'' 5 1]) \<and>
   bank (snd (SwapExactAmountIn (specCalcOutGivenIn powExact) storePool keeper0 0 ''alice'' 1
                (coin ''uatom'' 10) ''uosmo'' 1)) (''alice'', ''uatom'') = 90 \<and>
   bank (snd (SwapExactAmountIn (specCalcOutGivenIn powExact) storePool keeper0 0 ''alice'' 1
                (coin ''uatom'' 10) ''uosmo'' 1)) (''alice'', ''uosmo'') = 5 \<and>
   AddPoolAssetBalance pool2 (coin ''uatom'' 10)
     = Inr (mkPool 100 [asset ''uatom'' 20 1, asset ''uosmo'' 10 1]) \<and>
   SubPoolAssetBalance (mkPool 100 [asset ''uatom'' 20 1, asset ''uosmo'' 10 1]) (coin ''uosmo'' 5)
     = Inr (mkPool 100 [asset ''uatom'' 20 1, asset ''uosmo'' 5 1]) \<and>
   storePool keeperPoor (mkPool 100 [asset ''uatom'' 20 1, asset ''uosmo'' 5 1])
     = Some (keeperPoor\<lparr>pools := [1 \<mapsto> mkPool 100 [asset ''uatom'' 20 1, asset ''uosmo'' 5 1]]\<rparr>) \<and>
   SendCoins (bank keeperPoor) ''alice''
       (Address (mkPool 100 [asset ''uatom'' 20 1, asset ''uosmo'' 5 1])) [coin ''uatom'' 10]
     = Inl ErrInsufficientFunds \<and>
   updatePoolForSwap storePool keeperPoor pool2 ''alice'' (coin ''uatom'' 10) (coin ''uosmo'' 5)
     = (Inl ErrInsufficientFunds,
        keeperPoor\<lparr>pools := [1 \<mapsto> mkPool 100 [asset ''uatom'' 20 1, asset ''uosmo'' 5 1]]\<rparr>) \<and>
   fst (SwapExactAmountIn (specCalcOutGivenIn powExact) storePool keeperPoor 0 ''alice'' 1
          (coin ''uatom'' 10) ''uosmo'' 1) = Inl ErrInsufficientFunds \<and>
   atomically (\<lambda>s. SwapExactAmountIn (specCalcOutGivenIn powExact) storePool s 0 ''alice'' 1
                      (coin ''uatom'' 10) ''uosmo'' 1) keeperPoor
     = (Inl ErrInsufficientFunds, keeperPoor) \<and>
   pools keeperPoor 1 = Some (mkPool 100 [asset ''uatom'' 10 1, asset ''uosmo'' 10 1]) \<and>
   fst (SwapExactAmountIn (specCalcOutGivenIn powExact) storePool keeperDry 0 ''alice'' 1
          (coin ''uatom'' 10) ''uosmo'' 1) = Inl ErrInsufficientFunds \<and>
   pools (snd (SwapExactAmountIn (specCalcOutGivenIn powExact) storePool keeperDry 0 ''alice'' 1
                 (coin ''uatom'' 10) ''uosmo'' 1)) 1
     = Some (mkPool 100 [asset ''uatom'' 20 1, asset ''uosmo'' 5 1]) \<and>
   bank (snd (SwapExactAmountIn (specCalcOutGivenIn powExact) storePool keeperDry 0 ''alice'' 1
                (coin ''uatom'' 10) ''uosmo'' 1)) (''alice'', ''uatom'') = 90 \<and>
   atomically (\<lambda>s. SwapExactAmountIn (specCalcOutGivenIn powExact) storePool s 0 ''alice'' 1
                      (coin ''uatom'' 10) ''uosmo'' 1) keeperDry
     = (Inl ErrInsufficientFunds, keeperDry) \<and>
   pools keeperDry 1 = Some (mkPool 100 [asset ''uatom'' 10 1, asset ''uosmo'' 10 1])"
proof -
  have a1: "SwapExactAmountIn quoteSeven storePool keeper0 0 ''alice'' 1 (coin ''uatom'' 10)
              ''uatom'' 1 = (Inl ErrSameDenom, keeper0)"
    by (simp add: SwapExactAmountIn_def coin_def)
  have a2: "SwapExactAmountOut quoteSeven storePool keeper0 0 ''alice'' 1 ''uatom'' 100
              (coin ''uosmo'' 10) = (Inl ErrTooManyTokensOut, keeper0)"
    by (simp add: SwapExactAmountOut_def coin_def getPoolAndInOutAssets_def keeper0_def
        pool2_def mkPool_def asset_def parsePoolAssetsByDenoms_def bindE_def IsActive_def)
  have n1: "fst (SwapExactAmountIn (specCalcOutGivenIn powExact) (\<lambda>k pool. None) keeper0 0
                   ''alice'' 1 (coin ''uatom'' 10) ''uosmo'' 1) = Inl ErrSetPool"
    by code_simp
  have n2: "ErrSetPool \<noteq> ErrInvalidCoins \<and> ErrSetPool \<noteq> ErrInsufficientFunds" by simp
  note t0 = swap_failures_and_ledger [of "specCalcOutGivenIn powExact" "\<lambda>k pool. None" keeper0 0
      "''alice''" 1 "coin ''uatom'' 10" "''uosmo''" 1 quoteSeven "''uatom''" 100
      "coin ''uosmo'' 10" pool2 "coin ''uatom'' 10" "coin ''uosmo'' 5"]
  have "snd (SwapExactAmountIn (specCalcOutGivenIn powExact) (\<lambda>k pool. None) keeper0 0
               ''alice'' 1 (coin ''uatom'' 10) ''uosmo'' 1) = keeper0"
    by (rule conjunct1 [OF t0, rule_format, of ErrSetPool])
       (use n1 n2 in \<open>simp add: prod_eq_iff\<close>)
  with n1 have a3: "SwapExactAmountIn (specCalcOutGivenIn powExact) (\<lambda>k pool. None) keeper0 0
       ''alice'' 1 (coin ''uatom'' 10) ''uosmo'' 1 = (Inl ErrSetPool, keeper0)"
    by (simp add: prod_eq_iff)
  have s1: "fst (SwapExactAmountIn (specCalcOutGivenIn powExact) storePool keeper0 0 ''alice'' 1
                   (coin ''uatom'' 10) ''uosmo'' 1) = Inr 5"
    by code_simp
  have s2: "pools (snd (SwapExactAmountIn (specCalcOutGivenIn powExact) storePool keeper0 0
                          ''alice'' 1 (coin ''uatom'' 10) ''uosmo'' 1)) 1
     = Some (mkPool 100 [asset ''uatom'' 20 1, asset ''uosmo'' 5 1])"
    by code_simp
  have s3: "bank (snd (SwapExactAmountIn (specCalcOutGivenIn powExact) storePool keeper0 0
                         ''alice'' 1 (coin ''uatom'' 10) ''uosmo'' 1)) (''alice'', ''uatom'') = 90"
    by code_simp
  have s4: "bank (snd (SwapExactAmountIn (specCalcOutGivenIn powExact) storePool keeper0 0
                         ''alice'' 1 (coin ''uatom'' 10) ''uosmo'' 1)) (''alice'', ''uosmo'') = 5"
    by code_simp
  have h1: "AddPoolAssetBalance pool2 (coin ''uatom'' 10)
      = Inr (mkPool 100 [asset ''uatom'' 20 1, asset ''uosmo'' 10 1])" by code_simp
  have h2: "SubPoolAssetBalance (mkPool 100 [asset ''uatom'' 20 1, asset ''uosmo'' 10 1])
              (coin ''uosmo'' 5)
     = Inr (mkPool 100 [asset ''uatom'' 20 1, asset ''uosmo'' 5 1])" by code_simp
  have h3: "storePool keeperPoor (mkPool 100 [asset ''uatom'' 20 1, asset ''uosmo'' 5 1])
     = Some (keeperPoor\<lparr>pools := [1 \<mapsto> mkPool 100 [asset ''uatom'' 20 1, asset ''uosmo'' 5 1]]\<rparr>)"
    by (simp add: storePool_def keeperPoor_def mkPool_def)
  have h4: "SendCoins (bank (keeperPoor\<lparr>pools :=
                 [1 \<mapsto> mkPool 100 [asset ''uatom'' 20 1, asset ''uosmo'' 5 1]]\<rparr>)) ''alice''
       (Address (mkPool 100 [asset ''uatom'' 20 1, asset ''uosmo'' 5 1])) [coin ''uatom'' 10]
     = Inl ErrInsufficientFunds"
    by (simp add: keeperPoor_def coin_def SendCoins_def ValidateDenom_def isLetter_def
        isDenomChar_def)
  have h4': "SendCoins (bank keeperPoor) ''alice''
       (Address (mkPool 100 [asset ''uatom'' 20 1, asset ''uosmo'' 5 1])) [coin ''uatom'' 10]
     = Inl ErrInsufficientFunds"
    using h4 by simp
  have f1: "fst (SwapExactAmountIn (specCalcOutGivenIn powExact) storePool keeperPoor 0 ''alice'' 1
                   (coin ''uatom'' 10) ''uosmo'' 1) = Inl ErrInsufficientFunds"
    by code_simp
  have p: "pools keeperPoor 1 = Some (mkPool 100 [asset ''uatom'' 10 1, asset ''uosmo'' 10 1])"
    by (simp add: keeperPoor_def pool2_def)
  note t = swap_failures_and_ledger [of "specCalcOutGivenIn powExact" storePool keeperPoor 0
      "''alice''" 1 "coin ''uatom'' 10" "''uosmo''" 1 quoteSeven "''uatom''" 100
      "coin ''uosmo'' 10" pool2 "coin ''uatom'' 10" "coin ''uosmo'' 5"]
  have t6: "updatePoolForSwap storePool keeperPoor pool2 ''alice'' (coin ''uatom'' 10)
              (coin ''uosmo'' 5)
     = (Inl ErrInsufficientFunds,
        keeperPoor\<lparr>pools := [1 \<mapsto> mkPool 100 [asset ''uatom'' 20 1, asset ''uosmo'' 5 1]]\<rparr>)"
    by (rule conjunct1 [OF conjunct2 [OF conjunct2 [OF conjunct2 [OF conjunct2
          [OF conjunct2 [OF t]]]]], rule_format])
       (use h1 h2 h3 h4 in blast)
  have t8: "atomically (\<lambda>s. SwapExactAmountIn (specCalcOutGivenIn powExact) storePool s 0
                               ''alice'' 1 (coin ''uatom'' 10) ''uosmo'' 1) keeperPoor
     = (Inl ErrInsufficientFunds, keeperPoor)"
    by (rule conjunct1 [OF conjunct2 [OF conjunct2 [OF conjunct2 [OF conjunct2
          [OF conjunct2 [OF conjunct2 [OF conjunct2 [OF t]]]]]]], rule_format])
       (rule f1)
  have d1: "fst (SwapExactAmountIn (specCalcOutGivenIn powExact) storePool keeperDry 0 ''alice'' 1
                   (coin ''uatom'' 10) ''uosmo'' 1) = Inl ErrInsufficientFunds"
    by code_simp
  have d2: "pools (snd (SwapExactAmountIn (specCalcOutGivenIn powExact) storePool keeperDry 0
                          ''alice'' 1 (coin ''uatom'' 10) ''uosmo'' 1)) 1
     = Some (mkPool 100 [asset ''uatom'' 20 1, asset ''uosmo'' 5 1])"
    by code_simp
  have d3: "bank (snd (SwapExactAmountIn (specCalcOutGivenIn powExact) storePool keeperDry 0
                         ''alice'' 1 (coin ''uatom'' 10) ''uosmo'' 1)) (''alice'', ''uatom'') = 90"
    by code_simp
  note td = swap_failures_and_ledger [of "specCalcOutGivenIn powExact" storePool keeperDry 0
      "''alice''" 1 "coin ''uatom'' 10" "''uosmo''" 1 quoteSeven "''uatom''" 100
      "coin ''uosmo'' 10" pool2 "coin ''uatom'' 10" "coin ''uosmo'' 5"]
  have d4: "atomically (\<lambda>s. SwapExactAmountIn (specCalcOutGivenIn powExact) storePool s 0
                               ''alice'' 1 (coin ''uatom'' 10) ''uosmo'' 1) keeperDry
     = (Inl ErrInsufficientFunds, keeperDry)"
    by (rule conjunct1 [OF conjunct2 [OF conjunct2 [OF conjunct2 [OF conjunct2
          [OF conjunct2 [OF conjunct2 [OF conjunct2 [OF td]]]]]]], rule_format])
       (rule d1)
  have pd: "pools keeperDry 1 = Some (mkPool 100 [asset ''uatom'' 10 1, asset ''uosmo'' 10 1])"
    by (simp add: keeperDry_def pool2_def)
  from a1 a2 a3 s1 s2 s3 s4 h1 h2 h3 h4' t6 f1 t8 p d1 d2 d3 d4 pd
  show ?thesis by (intro conjI)
qed

end
